theory Spec2Isabelle
  imports Main
begin

section \<open>JavaScript values\<close>

text \<open>
  The operations of \<^verbatim>\<open>src/app/services/cfb.service.js\<close> take option objects, read parsed
  JSON and build plain objects. One type of values serves all three. An object is the
  list of its properties in the order the source writes them; the first binding of a key
  is the one a lookup finds. Numbers are integers: a number with a fraction is outside
  this model, and so are \<^verbatim>\<open>-0\<close> and the rounding of integers beyond \<open>2^53\<close>. A string is a
  list of characters with codes below 256; characters beyond are outside this model.
\<close>

datatype jsval =
    Undefined | Null | Bool bool | Num int | NaN | Str string
  | Arr "jsval list" | Obj "(string \<times> jsval) list"

datatype js_error = Error string | TypeError string | ReferenceError string

text \<open>Sequencing of steps that may throw: the first error is the result.\<close>

definition and_then :: "js_error + 'a \<Rightarrow> ('a \<Rightarrow> js_error + 'b) \<Rightarrow> js_error + 'b" where
  "and_then r f = (case r of Inl e \<Rightarrow> Inl e | Inr v \<Rightarrow> f v)"

text \<open>
  Reading a property, \<^verbatim>\<open>v.key\<close>. On \<^verbatim>\<open>undefined\<close> and \<^verbatim>\<open>null\<close> it throws a TypeError
  (which carries the key here); on an object without the key, and on any other value,
  it is \<^verbatim>\<open>undefined\<close>. The keys the source reads are none of the built-in properties
  of strings, arrays or objects, so the prototypes do not show.
\<close>

fun get_prop :: "jsval \<Rightarrow> string \<Rightarrow> js_error + jsval" where
  "get_prop Undefined key = Inl (TypeError key)"
| "get_prop Null key = Inl (TypeError key)"
| "get_prop (Obj kvs) key = Inr (case map_of kvs key of None \<Rightarrow> Undefined | Some v \<Rightarrow> v)"
| "get_prop v key = Inr Undefined"

subsection \<open>Numbers as decimal strings\<close>

definition digit_char :: "nat \<Rightarrow> char" where
  "digit_char d = ''0123456789'' ! d"

fun show_nat :: "nat \<Rightarrow> string" where
  "show_nat n =
     (if n < 10 then [digit_char n] else show_nat (n div 10) @ [digit_char (n mod 10)])"

declare show_nat.simps [simp del]

definition show_int :: "int \<Rightarrow> string" where
  "show_int i = (if i < 0 then CHR ''-'' # show_nat (nat (- i)) else show_nat (nat i))"

subsection \<open>Conversion to a string\<close>

text \<open>
  \<^verbatim>\<open>ToString\<close>, as a template literal and \<^verbatim>\<open>+\<close> with a string apply it. An array joins
  its elements with commas, \<^verbatim>\<open>undefined\<close> and \<^verbatim>\<open>null\<close> elements as empty strings.
\<close>

fun join :: "string \<Rightarrow> string list \<Rightarrow> string" where
  "join sep [] = []"
| "join sep [x] = x"
| "join sep (x # y # ys) = x @ sep @ join sep (y # ys)"

fun toString :: "jsval \<Rightarrow> string" and toStrings :: "jsval list \<Rightarrow> string list" where
  "toString Undefined = ''undefined''"
| "toString Null = ''null''"
| "toString (Bool b) = (if b then ''true'' else ''false'')"
| "toString (Num n) = show_int n"
| "toString NaN = ''NaN''"
| "toString (Str s) = s"
| "toString (Arr xs) = join '','' (toStrings xs)"
| "toString (Obj kvs) = ''[object Object]''"
| "toStrings [] = []"
| "toStrings (x # xs) =
     (if x = Undefined \<or> x = Null then [] else toString x) # toStrings xs"

text \<open>The condition of an \<^verbatim>\<open>if\<close>, of \<^verbatim>\<open>&&\<close>, \<^verbatim>\<open>||\<close> and \<^verbatim>\<open>?:\<close>.\<close>

definition truthy :: "jsval \<Rightarrow> bool" where
  "truthy v =
     (case v of Undefined \<Rightarrow> False | Null \<Rightarrow> False | Bool b \<Rightarrow> b | Num n \<Rightarrow> n \<noteq> 0
      | NaN \<Rightarrow> False | Str s \<Rightarrow> s \<noteq> [] | Arr xs \<Rightarrow> True | Obj kvs \<Rightarrow> True)"

subsection \<open>Strings\<close>

text \<open>
  White space as \<^verbatim>\<open>trim\<close> and \<^verbatim>\<open>parseInt\<close> skip it, among the characters below 256:
  tab, line feed, vertical tab, form feed, carriage return, space and the no-break space
  U+00A0.
\<close>

definition is_ws :: "char \<Rightarrow> bool" where
  "is_ws c \<longleftrightarrow> c \<in> set [CHR 0x09, CHR 0x0A, CHR 0x0B, CHR 0x0C, CHR 0x0D, CHR 0x20, CHR 0xA0]"

definition trim :: "string \<Rightarrow> string" where
  "trim s = rev (dropWhile is_ws (rev (dropWhile is_ws s)))"

text \<open>
  \<^verbatim>\<open>s.split(sep)\<close> for a separator that is not empty: the pieces between the occurrences
  of \<open>sep\<close>, found from the left; the result has at least one piece.
\<close>

fun split_from :: "string \<Rightarrow> string \<Rightarrow> string \<Rightarrow> string list" where
  "split_from sep cur [] = [rev cur]"
| "split_from sep cur (c # cs) =
     (if sep \<noteq> [] \<and> take (length sep) (c # cs) = sep
      then rev cur # split_from sep [] (drop (length sep - 1) cs)
      else split_from sep (c # cur) cs)"

definition split_str :: "string \<Rightarrow> string \<Rightarrow> string list" where
  "split_str s sep = split_from sep [] s"

text \<open>\<^verbatim>\<open>s.replace(pat, rep)\<close> with a string pattern replaces the first occurrence only.\<close>

fun replace_first :: "string \<Rightarrow> string \<Rightarrow> string \<Rightarrow> string" where
  "replace_first pat rep [] = (if pat = [] then rep else [])"
| "replace_first pat rep (c # cs) =
     (if take (length pat) (c # cs) = pat then rep @ drop (length pat) (c # cs)
      else c # replace_first pat rep cs)"

text \<open>\<^verbatim>\<open>toLowerCase\<close> on the letters A to Z; the strings it meets in the source are the
  six service names.\<close>

definition lower_char :: "char \<Rightarrow> char" where
  "lower_char c =
     (case map_of (zip ''ABCDEFGHIJKLMNOPQRSTUVWXYZ'' ''abcdefghijklmnopqrstuvwxyz'') c of
        None \<Rightarrow> c | Some l \<Rightarrow> l)"

definition toLowerCase :: "string \<Rightarrow> string" where
  "toLowerCase s = map lower_char s"

subsection \<open>parseInt\<close>

text \<open>
  \<^verbatim>\<open>parseInt(string, radix)\<close> converts its argument to a string, skips leading white
  space and one sign, and reads the longest prefix of digits; without any digit the
  result is \<^verbatim>\<open>NaN\<close>. Called without a radix it reads hexadecimal digits after a prefix
  \<^verbatim>\<open>0x\<close> or \<^verbatim>\<open>0X\<close> (\<open>stripPrefix\<close>); called with radix 10 it does not.
\<close>

definition digit_val :: "char \<Rightarrow> nat option" where
  "digit_val c = map_of (zip ''0123456789'' [0, 1, 2, 3, 4, 5, 6, 7, 8, 9]) c"

definition hex_val :: "char \<Rightarrow> nat option" where
  "hex_val c =
     map_of (zip ''0123456789abcdefABCDEF''
       [0, 1, 2, 3, 4, 5, 6, 7, 8, 9, 10, 11, 12, 13, 14, 15, 10, 11, 12, 13, 14, 15]) c"

definition is_digit :: "char \<Rightarrow> bool" where
  "is_digit c \<longleftrightarrow> digit_val c \<noteq> None"

definition is_hex_digit :: "char \<Rightarrow> bool" where
  "is_hex_digit c \<longleftrightarrow> hex_val c \<noteq> None"

fun radix_value :: "nat \<Rightarrow> (char \<Rightarrow> nat option) \<Rightarrow> nat \<Rightarrow> string \<Rightarrow> nat" where
  "radix_value r val acc [] = acc"
| "radix_value r val acc (c # cs) =
     (case val c of None \<Rightarrow> acc | Some d \<Rightarrow> radix_value r val (r * acc + d) cs)"

definition parseInt_string :: "bool \<Rightarrow> string \<Rightarrow> jsval" where
  "parseInt_string stripPrefix inputString =
     (let s = dropWhile is_ws inputString;
          negative = (take 1 s = ''-'');
          s = (if take 1 s = ''+'' \<or> take 1 s = ''-'' then drop 1 s else s);
          hex = (stripPrefix \<and> (take 2 s = ''0x'' \<or> take 2 s = ''0X''));
          z = (if hex then takeWhile is_hex_digit (drop 2 s) else takeWhile is_digit s);
          mathInt = (if hex then radix_value 16 hex_val 0 z else radix_value 10 digit_val 0 z)
      in if z = [] then NaN else Num (if negative then - int mathInt else int mathInt))"

definition parseInt :: "jsval \<Rightarrow> jsval" where
  "parseInt v = parseInt_string True (toString v)"

definition parseInt10 :: "string \<Rightarrow> jsval" where
  "parseInt10 s = parseInt_string False s"

section \<open>The incremental scroll loop\<close>

text \<open>
  \<^verbatim>\<open>autoScroll(page, targetRowCount = 250)\<close> of \<^verbatim>\<open>src/app/services/cfb.service.js\<close>
  (lines 11-36) runs a timer inside the rendered page. The callback of
  \<^verbatim>\<open>setInterval(..., 500)\<close> is one tick; the variables \<^verbatim>\<open>totalHeight\<close> and
  \<^verbatim>\<open>attempts\<close> of the enclosing promise are the state the ticks share.

  What the page does while it is being scrolled is not under the control of the code. It
  is modelled by what the callback reads from it at tick \<open>k\<close> (ticks are numbered from 1):
  the number of elements matching \<^verbatim>\<open>table tbody tr\<close> and the value of
  \<^verbatim>\<open>document.body.scrollHeight\<close>. The scrolling of the code is the same on every run
  (100 pixels per tick), so a function of the tick number covers every reaction of a
  page to it.
\<close>

record scroll_state =
  totalHeight :: nat
  attempts :: nat

record rendered_page =
  rows_at :: "nat \<Rightarrow> nat"
  scrollHeight_at :: "nat \<Rightarrow> nat"

definition distance :: nat where
  "distance = 100"

definition maxAttempts :: nat where
  "maxAttempts = 20"

datatype tick_result = Resolved | Pending scroll_state

text \<open>
  One run of the interval callback (lines 19-33): scroll, add to \<^verbatim>\<open>totalHeight\<close>, count
  the rows, then either clear the timer and resolve, or count an attempt when the
  scrolled distance has reached the current scroll height, or do nothing.
\<close>

definition tick :: "rendered_page \<Rightarrow> nat \<Rightarrow> nat \<Rightarrow> scroll_state \<Rightarrow> tick_result" where
  "tick pg targetRowCount k s =
     (let totalHeight' = totalHeight s + distance;
          rows = rows_at pg k
      in if rows \<ge> targetRowCount \<or> attempts s \<ge> maxAttempts then Resolved
         else if totalHeight' \<ge> scrollHeight_at pg k
           then Pending \<lparr>totalHeight = totalHeight', attempts = attempts s + 1\<rparr>
           else Pending \<lparr>totalHeight = totalHeight', attempts = attempts s\<rparr>)"

text \<open>
  The timer keeps firing until a tick resolves the promise. Nothing else stops it, so the
  loop is a partial function: \<open>None\<close> is a promise that never resolves, \<open>Some k\<close> one that
  resolves at tick \<open>k\<close>, that is after \<open>k\<close> intervals of 500 ms.
\<close>

partial_function (option) timer ::
    "rendered_page \<Rightarrow> nat \<Rightarrow> nat \<Rightarrow> scroll_state \<Rightarrow> nat option" where
  "timer pg targetRowCount k s =
     (case tick pg targetRowCount k s of
        Resolved \<Rightarrow> Some k
      | Pending s' \<Rightarrow> timer pg targetRowCount (Suc k) s')"

declare timer.simps [code]

text \<open>\<open>None\<close> for the argument is the omitted parameter, which takes the default 250.\<close>

definition autoScroll :: "rendered_page \<Rightarrow> nat option \<Rightarrow> nat option" where
  "autoScroll pg targetRowCount =
     timer pg (case targetRowCount of None \<Rightarrow> 250 | Some t \<Rightarrow> t) 1
       \<lparr>totalHeight = 0, attempts = 0\<rparr>"

text \<open>Two pages used below: one that never changes, and one that is always taller than
  the distance scrolled so far and never shows a matching row.\<close>

definition static_page :: "nat \<Rightarrow> nat \<Rightarrow> rendered_page" where
  "static_page r h = \<lparr>rows_at = (\<lambda>_. r), scrollHeight_at = (\<lambda>_. h)\<rparr>"

definition growing_page :: rendered_page where
  "growing_page = \<lparr>rows_at = (\<lambda>_. 0), scrollHeight_at = (\<lambda>k. 200 * k)\<rparr>"

text \<open>The states the loop passes through on the growing page.\<close>

definition scroll_ahead :: "rendered_page \<Rightarrow> nat \<Rightarrow> nat \<Rightarrow> scroll_state \<Rightarrow> bool" where
  "scroll_ahead pg t k s \<longleftrightarrow>
     pg = growing_page \<and> 0 < t \<and> 0 < k \<and> totalHeight s + 100 = 100 * k \<and> attempts s = 0"

text \<open>
  The stopping rule as the specification words it, to compare with: tick \<open>k\<close> counts as an
  attempt when the distance scrolled by then, \<open>100 * k\<close>, has reached the scroll height
  read at that tick; the loop is to stop at a tick that finds the row target met or 20
  attempts counted at earlier ticks.
\<close>

definition counts_attempt :: "rendered_page \<Rightarrow> nat \<Rightarrow> bool" where
  "counts_attempt pg k \<longleftrightarrow> scrollHeight_at pg k \<le> 100 * k"

definition attempts_before :: "rendered_page \<Rightarrow> nat \<Rightarrow> nat" where
  "attempts_before pg k = length (filter (counts_attempt pg) [1 ..< k])"

definition stops_at :: "rendered_page \<Rightarrow> nat \<Rightarrow> nat \<Rightarrow> bool" where
  "stops_at pg target k \<longleftrightarrow> target \<le> rows_at pg k \<or> 20 \<le> attempts_before pg k"

section \<open>The network, the browser and the host\<close>

text \<open>
  The configuration object handed to \<^verbatim>\<open>axios.get\<close>: its headers and, when the key is
  set, its query parameters in the order the source lists them.
\<close>

record axios_config =
  headers :: "(string \<times> string) list"
  params :: "(string \<times> jsval) list option"

text \<open>What an operation does to the outside, in the order it does it.\<close>

datatype effect =
    AxiosGet string axios_config
  | Launch | NewPage | Goto string | AutoScroll | Content | Close

text \<open>
  The outside answers: \<open>axios_get\<close> gives \<^verbatim>\<open>res.data\<close> of the response or the error the
  request rejects with; \<open>page_goto\<close> gives the page a headless browser has loaded, with the
  document it would serialise after a number of scroll ticks.
\<close>

record world =
  axios_get :: "string \<Rightarrow> axios_config \<Rightarrow> js_error + jsval"
  page_goto :: "string \<Rightarrow> js_error + rendered_page \<times> (nat \<Rightarrow> jsval)"

text \<open>
  A selection of cheerio on one matched row, by what the source asks of it:
  \<^verbatim>\<open>html.find(sel).text()\<close>, \<^verbatim>\<open>html.find(sel).length\<close>, \<^verbatim>\<open>html.find(sel).attr(name)\<close>,
  \<^verbatim>\<open>html.find(sel).clone().children().remove().end().text()\<close>,
  \<^verbatim>\<open>html.find(sel).first().text()\<close> and \<^verbatim>\<open>$(html.find(sel)[i]).text()\<close>, which is the
  empty string when there is no such element. A loaded document answers a selector with
  the rows it matches, in document order.
\<close>

record element =
  find_text :: "string \<Rightarrow> string"
  find_length :: "string \<Rightarrow> nat"
  find_attr :: "string \<Rightarrow> string \<Rightarrow> string option"
  find_own_text :: "string \<Rightarrow> string"
  find_first_text :: "string \<Rightarrow> string"
  find_nth_text :: "string \<Rightarrow> nat \<Rightarrow> string"

type_synonym cheerio = "string \<Rightarrow> element list"

text \<open>
  The host: the HTML parser behind \<^verbatim>\<open>cheerio.load\<close>, which may throw, and the built-in
  \<^verbatim>\<open>parseFloat\<close> (its result is a floating-point number, which this model does not
  compute), and the two names that \<^verbatim>\<open>getPlayerRankings\<close> reads from the global scope (see
  there). A host that defines neither of these names, as Node does, has \<open>None\<close> for both.
\<close>

record host =
  parse_document :: "jsval \<Rightarrow> js_error + cheerio"
  parseFloat :: "string \<Rightarrow> jsval"
  global_dollar :: "cheerio option"
  global_attributes :: "jsval option"

text \<open>
  \<^verbatim>\<open>cheerio.load(content)\<close>: the library refuses \<^verbatim>\<open>null\<close> and \<^verbatim>\<open>undefined\<close> with an
  Error before it parses anything; what it does with any other content is the host's.
\<close>

definition cheerio_load :: "host \<Rightarrow> jsval \<Rightarrow> js_error + cheerio" where
  "cheerio_load h content =
     (if content = Undefined \<or> content = Null
      then Inl (Error ''cheerio.load() expects a string'')
      else parse_document h content)"

definition user_agent :: string where
  "user_agent = ''Mozilla/5.0 (Windows NT 6.1) AppleWebKit/537.36 (KHTML, like Gecko) Chrome/41.0.2228.0 Safari/537.36''"

text \<open>A destructured parameter takes its default when the caller leaves it
  \<^verbatim>\<open>undefined\<close>, and only then.\<close>

definition or_default :: "jsval \<Rightarrow> jsval \<Rightarrow> jsval" where
  "or_default v d = (if v = Undefined then d else v)"

text \<open>A property of an object the code has built itself.\<close>

definition prop_of :: "jsval \<Rightarrow> string \<Rightarrow> jsval" where
  "prop_of v key = (case get_prop v key of Inl e \<Rightarrow> Undefined | Inr x \<Rightarrow> x)"

text \<open>\<^verbatim>\<open>xs[i]\<close> on the pieces of a split string.\<close>

definition str_at :: "string list \<Rightarrow> nat \<Rightarrow> jsval" where
  "str_at xs i = (if i < length xs then Str (xs ! i) else Undefined)"

text \<open>\<^verbatim>\<open>v[0]\<close> on a value read from JSON.\<close>

fun get_first :: "jsval \<Rightarrow> js_error + jsval" where
  "get_first Undefined = Inl (TypeError ''0'')"
| "get_first Null = Inl (TypeError ''0'')"
| "get_first (Arr xs) = Inr (case xs of [] \<Rightarrow> Undefined | x # rest \<Rightarrow> x)"
| "get_first (Str s) = Inr (case s of [] \<Rightarrow> Undefined | c # rest \<Rightarrow> Str [c])"
| "get_first (Obj kvs) = Inr (case map_of kvs ''0'' of None \<Rightarrow> Undefined | Some v \<Rightarrow> v)"
| "get_first v = Inr Undefined"

section \<open>getSchedule and getScoreboard\<close>

text \<open>
  The option objects of \<^verbatim>\<open>getSchedule\<close> (line 536) and \<^verbatim>\<open>getScoreboard\<close> (line 572). A
  key the caller leaves out is \<^verbatim>\<open>undefined\<close>.
\<close>

record dated_opts =
  year :: jsval

record schedule_opts = dated_opts +
  month :: jsval
  day :: jsval
  groups :: jsval
  seasontype :: jsval

record scoreboard_opts = schedule_opts +
  limit :: jsval

text \<open>
  Lines 546-548 and 580-582, the same in both operations:
  \<^verbatim>\<open>parseInt(month) <= 9 ? "0" + parseInt(month) : parseInt(month)\<close> inside the template
  literal, and the test \<^verbatim>\<open>year && month && day\<close> around it.
\<close>

definition zero_pad :: "jsval \<Rightarrow> string" where
  "zero_pad v =
     (case parseInt v of
        Num n \<Rightarrow> if n \<le> 9 then ''0'' @ show_int n else show_int n
      | r \<Rightarrow> toString r)"

definition dates_param :: "jsval \<Rightarrow> jsval \<Rightarrow> jsval \<Rightarrow> (string \<times> jsval) list" where
  "dates_param y m d =
     (if truthy y \<and> truthy m \<and> truthy d
      then [(''dates'', Str (toString y @ zero_pad m @ zero_pad d))]
      else [])"

definition getSchedule_params :: "'a schedule_opts_scheme \<Rightarrow> (string \<times> jsval) list" where
  "getSchedule_params opts =
     [(''groups'', or_default (groups opts) (Num 80)),
      (''seasontype'', or_default (seasontype opts) (Num 2)),
      (''xhr'', Num 1),
      (''render'', Bool False),
      (''device'', Str ''desktop''),
      (''userab'', Num 18)]
     @ dates_param (year opts) (month opts) (day opts)"

definition getSchedule :: "world \<Rightarrow> schedule_opts \<Rightarrow> effect list \<times> (js_error + jsval)" where
  "getSchedule w opts =
     (let baseUrl = ''http://cdn.espn.com/core/college-football/schedule'';
          config = \<lparr>headers = [], params = Some (getSchedule_params opts)\<rparr>
      in ([AxiosGet baseUrl config],
          and_then (axios_get w baseUrl config) (\<lambda>data.
          and_then (get_prop data ''content'') (\<lambda>content.
          get_prop content ''schedule''))))"

definition getScoreboard_params :: "scoreboard_opts \<Rightarrow> (string \<times> jsval) list" where
  "getScoreboard_params opts =
     [(''groups'', or_default (groups opts) (Num 80)),
      (''seasontype'', or_default (seasontype opts) (Num 2)),
      (''limit'', or_default (limit opts) (Num 300))]
     @ dates_param (year opts) (month opts) (day opts)"

definition getScoreboard :: "world \<Rightarrow> scoreboard_opts \<Rightarrow> effect list \<times> (js_error + jsval)" where
  "getScoreboard w opts =
     (let baseUrl = ''http://site.api.espn.com/apis/site/v2/sports/football/college-football/scoreboard'';
          config = \<lparr>headers = [], params = Some (getScoreboard_params opts)\<rparr>
      in ([AxiosGet baseUrl config], axios_get w baseUrl config))"

text \<open>
  The date string as the specification words it, to compare with: four digits of the
  year, two of the month, two of the day.
\<close>

definition fixed_width :: "nat \<Rightarrow> nat \<Rightarrow> string" where
  "fixed_width w n = map (\<lambda>i. digit_char ((n div 10 ^ (w - 1 - i)) mod 10)) [0 ..< w]"

definition yyyymmdd :: "nat \<Rightarrow> nat \<Rightarrow> nat \<Rightarrow> string" where
  "yyyymmdd y m d = fixed_width 4 y @ fixed_width 2 m @ fixed_width 2 d"

section \<open>getPicks\<close>

text \<open>
  Lines 175-200: one request, then an object literal whose thirteen properties are read
  from \<^verbatim>\<open>res.data\<close>, in this order. Any of the reads can throw.
\<close>

definition picks_of :: "jsval \<Rightarrow> js_error + jsval" where
  "picks_of data =
     and_then (get_prop data ''header'') (\<lambda>header.
     and_then (get_prop header ''id'') (\<lambda>header_id.
     and_then (get_prop data ''gameInfo'') (\<lambda>gameInfo.
     and_then (get_prop data ''leaders'') (\<lambda>leaders.
     and_then (get_prop header ''competitions'') (\<lambda>competitions.
     and_then (get_first competitions) (\<lambda>competition.
     and_then (get_prop competition ''competitors'') (\<lambda>competitors.
     and_then (get_prop data ''winprobability'') (\<lambda>winprobability.
     and_then (get_prop data ''againstTheSpread'') (\<lambda>againstTheSpread.
     and_then (get_prop data ''odds'') (\<lambda>odds.
     and_then (get_prop header ''season'') (\<lambda>season.
     and_then (get_prop header ''week'') (\<lambda>week.
     and_then (get_prop data ''standings'') (\<lambda>standings.
     Inr (Obj
       [(''id'', parseInt header_id),
        (''gameInfo'', gameInfo),
        (''leaders'', leaders),
        (''header'', header),
        (''teams'', competitors),
        (''competitions'', competitions),
        (''winProbability'', winprobability),
        (''pickcenter'', winprobability),
        (''againstTheSpread'', againstTheSpread),
        (''odds'', odds),
        (''season'', season),
        (''week'', week),
        (''standings'', standings)]))))))))))))))"

definition picks_target :: "jsval \<Rightarrow> string \<times> axios_config" where
  "picks_target gameId =
     (''http://site.api.espn.com/apis/site/v2/sports/football/college-football/summary'',
      \<lparr>headers = [], params = Some [(''event'', gameId)]\<rparr>)"

definition getPicks :: "world \<Rightarrow> jsval \<Rightarrow> effect list \<times> (js_error + jsval)" where
  "getPicks w gameId =
     (let (baseUrl, config) = picks_target gameId
      in ([AxiosGet baseUrl config], and_then (axios_get w baseUrl config) picks_of))"

text \<open>A response that carries both a \<open>winprobability\<close> and a \<open>pickcenter\<close> entry, and a
  network that answers every request with it.\<close>

definition summary_response :: jsval where
  "summary_response =
     Obj [(''header'',
             Obj [(''id'', Str ''401256194''),
                  (''competitions'', Arr [Obj [(''competitors'', Arr [Str ''FSU'', Str ''UF''])]]),
                  (''season'', Num 2020),
                  (''week'', Num 4)]),
          (''winprobability'', Arr [Num 1, Num 2]),
          (''pickcenter'', Arr [Str ''line'', Str ''spread''])]"

definition answering :: "jsval \<Rightarrow> world" where
  "answering data =
     \<lparr>axios_get = (\<lambda>url config. Inr data),
      page_goto = (\<lambda>url. Inl (Error ''no browser''))\<rparr>"

section \<open>getSchoolCommits\<close>

text \<open>
  Lines 453-493. Here \<^verbatim>\<open>$\<close> is declared in the body of the function (line 462) and is
  the document loaded from the response; loading it can throw. The callback of \<^verbatim>\<open>.each\<close> builds one object
  per matched row (lines 466-485); the filter of lines 488-490 then removes the objects
  whose name or rating is the empty string.
\<close>

definition commit_player :: "element \<Rightarrow> jsval" where
  "commit_player html =
     (let metrics = split_str (find_text html ''.metrics'') ''/''
      in Obj
        [(''name'', Str (trim (find_text html ''.ri-page__name-link''))),
         (''highSchool'', Str (trim (find_text html ''span.meta''))),
         (''position'', Str (trim (find_text html ''.position''))),
         (''height'', str_at metrics 0),
         (''weight'', str_at metrics 1),
         (''stars'', Num (int (find_length html ''.ri-page__star-and-score .yellow''))),
         (''rating'', Str (trim (find_own_text html ''span.score''))),
         (''nationalRank'', Str (trim (find_first_text html ''.natrank''))),
         (''stateRank'', Str (trim (find_first_text html ''.sttrank''))),
         (''positionRank'', Str (trim (find_first_text html ''.posrank'')))])"

definition has_name_and_rating :: "jsval \<Rightarrow> bool" where
  "has_name_and_rating player \<longleftrightarrow>
     prop_of player ''name'' \<noteq> Str '''' \<and> prop_of player ''rating'' \<noteq> Str ''''"

definition commits_target :: "jsval \<Rightarrow> jsval \<Rightarrow> string \<times> axios_config" where
  "commits_target school yr =
     (''http://'' @ toString school @ ''.247sports.com/Season/'' @ toString yr
        @ ''-Football/Commits'',
      \<lparr>headers = [(''User-Agent'', user_agent)], params = None\<rparr>)"

definition getSchoolCommits ::
    "host \<Rightarrow> world \<Rightarrow> jsval \<Rightarrow> jsval \<Rightarrow> effect list \<times> (js_error + jsval list)" where
  "getSchoolCommits h w school yr =
     (let (baseUrl, config) = commits_target school yr
      in ([AxiosGet baseUrl config],
          and_then (axios_get w baseUrl config) (\<lambda>data.
          and_then (cheerio_load h data) (\<lambda>dollar.
            let players = map commit_player (dollar ''.ri-page__list-item'');
                result = filter has_name_and_rating players
            in Inr result))))"

section \<open>getSchoolRankings\<close>

text \<open>
  Lines 408-441, with \<^verbatim>\<open>$\<close> declared in the body of the function (line 420). The
  callback of \<^verbatim>\<open>.each\<close> builds one object per matched row, and the list of these objects
  is returned as it is.
\<close>

definition school_of :: "element \<Rightarrow> jsval" where
  "school_of html =
     Obj
       [(''rank'', Str (trim (find_text html ''.rank-column .primary''))),
        (''school'', Str (trim (find_text html ''.rankings-page__name-link''))),
        (''totalCommits'', Str (trim (find_text html ''.total a''))),
        (''fiveStars'',
           Str (trim (replace_first ''5: '' ''''
                  (find_nth_text html ''ul.star-commits-list > li > div'' 0)))),
        (''fourStars'',
           Str (trim (replace_first ''4: '' ''''
                  (find_nth_text html ''ul.star-commits-list > li > div'' 1)))),
        (''threeStars'',
           Str (trim (replace_first ''3: '' ''''
                  (find_nth_text html ''ul.star-commits-list > li > div'' 2)))),
        (''averageRating'', Str (trim (find_text html ''.avg''))),
        (''points'', Str (trim (find_text html ''.number'')))]"

definition school_rankings_target :: "jsval \<Rightarrow> jsval \<Rightarrow> string \<times> axios_config" where
  "school_rankings_target yr pg =
     (''http://247sports.com/Season/'' @ toString yr @ ''-Football/CompositeTeamRankings'',
      \<lparr>headers = [(''User-Agent'', user_agent)],
       params = Some [(''Page'', or_default pg (Num 1))]\<rparr>)"

definition getSchoolRankings ::
    "host \<Rightarrow> world \<Rightarrow> jsval \<Rightarrow> jsval \<Rightarrow> effect list \<times> (js_error + jsval list)" where
  "getSchoolRankings h w yr pg =
     (let (baseUrl, config) = school_rankings_target yr pg
      in ([AxiosGet baseUrl config],
          and_then (axios_get w baseUrl config) (\<lambda>data.
          and_then (cheerio_load h data) (\<lambda>dollar.
          Inr (map school_of (dollar ''.rankings-page__list-item''))))))"

section \<open>getPlayerRankings\<close>

subsection \<open>The request\<close>

text \<open>
  The option object of line 218. \<open>page\<close> is a number and \<open>service\<close> a string, as the
  documentation of the function types them; \<open>None\<close> is a key left out.
\<close>

record rankings_opts = dated_opts +
  page :: "int option"
  group :: jsval
  position :: jsval
  state :: jsval
  service :: "string option"

definition page_of :: "rankings_opts \<Rightarrow> int" where
  "page_of opts = (case page opts of None \<Rightarrow> 1 | Some p \<Rightarrow> p)"

definition service_of :: "rankings_opts \<Rightarrow> string" where
  "service_of opts = (case service opts of None \<Rightarrow> ''247Composite'' | Some s \<Rightarrow> s)"

text \<open>
  Lines 226-268: the chain of comparisons that picks the URL and, for some services, the
  query parameters; \<^verbatim>\<open>axiosConfig.params\<close> is set only when \<^verbatim>\<open>params\<close> was assigned. The
  last branch throws.
\<close>

definition rankings_target :: "rankings_opts \<Rightarrow> js_error + string \<times> axios_config" where
  "rankings_target opts =
     (let yr = toString (year opts);
          axiosConfig = \<lparr>headers = [(''User-Agent'', user_agent)], params = None\<rparr>;
          params247 =
            [(''InstitutionGroup'', or_default (group opts) (Str ''HighSchool'')),
             (''Page'', Num (page_of opts)),
             (''Position'', or_default (position opts) Null),
             (''State'', or_default (state opts) Null)]
      in if service_of opts = ''247Composite'' then
           Inr (''http://247sports.com/Season/'' @ yr @ ''-Football/CompositeRecruitRankings'',
                axiosConfig\<lparr>params := Some params247\<rparr>)
         else if service_of opts = ''247'' then
           Inr (''http://247sports.com/Season/'' @ yr @ ''-Football/recruitrankings'',
                axiosConfig\<lparr>params := Some params247\<rparr>)
         else if service_of opts = ''Rivals'' then
           Inr (''https://n.rivals.com/prospect_rankings/rivals250/'' @ yr, axiosConfig)
         else if service_of opts = ''On3'' then
           Inr (''https://www.on3.com/db/rankings/player/football/'' @ yr @ ''/'', axiosConfig)
         else if service_of opts = ''On3Composite'' then
           Inr (''https://www.on3.com/db/rankings/industry-player/football/'' @ yr @ ''/'',
                axiosConfig)
         else if service_of opts = ''ESPN'' then
           Inr (''https://sports.core.api.espn.com/v2/sports/football/leagues/college-football/recruiting/''
                  @ yr @ ''/athletes?page='' @ show_int (page_of opts),
                axiosConfig\<lparr>params := Some [(''lang'', Str ''en''), (''region'', Str ''us'')]\<rparr>)
         else Inl (Error ''Invalid rankings type''))"

definition recognized_services :: "string list" where
  "recognized_services = [''247Composite'', ''247'', ''Rivals'', ''On3'', ''On3Composite'', ''ESPN'']"

subsection \<open>The fetch\<close>

text \<open>
  \<^verbatim>\<open>fetchRankingsData\<close> (lines 38-61). For Rivals a browser loads the page and
  \<^verbatim>\<open>autoScroll\<close> runs in it before the document is read; the result is \<open>None\<close> when the
  scroll loop never resolves. Every other service is one \<^verbatim>\<open>axios.get\<close>.
\<close>

definition fetchRankingsData ::
    "world \<Rightarrow> string \<Rightarrow> axios_config \<Rightarrow> string \<Rightarrow> (effect list \<times> (js_error + jsval)) option" where
  "fetchRankingsData w baseUrl axiosConfig svc =
     (if toLowerCase svc = ''rivals'' then
        (case page_goto w baseUrl of
           Inl e \<Rightarrow> Some ([Launch, NewPage, Goto baseUrl], Inl e)
         | Inr (pg, content) \<Rightarrow>
             (case autoScroll pg None of
                None \<Rightarrow> None
              | Some n \<Rightarrow>
                  Some ([Launch, NewPage, Goto baseUrl, AutoScroll, Content, Close],
                        Inr (content n))))
      else Some ([AxiosGet baseUrl axiosConfig], axios_get w baseUrl axiosConfig))"

subsection \<open>The rows of 247Sports\<close>

text \<open>
  Lines 284-304, the callback of \<^verbatim>\<open>.each\<close> with the variable \<^verbatim>\<open>rank\<close> that it
  increments after each row.
\<close>

definition player247 :: "host \<Rightarrow> int \<Rightarrow> element \<Rightarrow> jsval" where
  "player247 h rank html =
     (let metrics = split_str (find_text html ''.metrics'') ''/''
      in Obj
        [(''ranking'', Num rank),
         (''name'', Str (trim (find_text html ''.rankings-page__name-link''))),
         (''highSchool'', Str (trim (find_text html ''span.meta''))),
         (''position'', Str (trim (find_text html ''.position''))),
         (''height'', Str (trim (hd metrics))),
         (''weight'',
            (case str_at metrics 1 of
               Str m1 \<Rightarrow> if m1 \<noteq> [] \<and> parseInt10 (trim m1) \<noteq> NaN
                          then parseInt10 (trim m1) else Num 0
             | other \<Rightarrow> Num 0)),
         (''stars'', Num (int (find_length html ''.rankings-page__star-and-score > .yellow''))),
         (''rating'', parseFloat h (trim (trim (find_text html ''.score'')))),
         (''college'',
            (case find_attr html ''.img-link > img'' ''title'' of
               None \<Rightarrow> Str ''uncommitted''
             | Some t \<Rightarrow> if t \<noteq> [] then Str t else Str ''uncommitted''))])"

fun each247 :: "host \<Rightarrow> int \<Rightarrow> element list \<Rightarrow> jsval list" where
  "each247 h rank [] = []"
| "each247 h rank (html # rest) = player247 h rank html # each247 h (rank + 1) rest"

subsection \<open>The rows of Rivals\<close>

text \<open>Lines 307-326.\<close>

definition playerRivals :: "element \<Rightarrow> jsval" where
  "playerRivals html =
     (let parts = split_str (trim (find_text html ''span.pos'')) ''\<newline>\<newline>'';
          position = hd parts;
          weight = last parts
      in Obj
        [(''ranking'', Str (trim (find_text html ''span.ordinality''))),
         (''name'', Str (trim (find_text html ''div.first-name'') @ '' ''
                         @ trim (find_text html ''div.last-name''))),
         (''highSchool'',
            Str (replace_first ''\<newline>\<newline>'' '' '' (trim (find_text html ''div.break-text'')))),
         (''position'', Str position),
         (''height'', Str (trim (find_text html ''span.height''))),
         (''weight'', Str weight),
         (''stars'', Num (int (find_length html ''rv-stars i.star-on''))),
         (''rating'', Str (trim (trim (find_text html ''.score'')))),
         (''college'', Str (hd (split_str (trim (find_text html ''div.school-name'')) ''\<newline>'')))])"

subsection \<open>The rows of On3\<close>

text \<open>
  Lines 329-363. The star count is \<^verbatim>\<open>html.find(a).find(b).length\<close>, the number of elements
  matching \<open>b\<close> below one matching \<open>a\<close>: the selection of the descendant selector \<open>a b\<close>.
\<close>

definition playerOn3 :: "element \<Rightarrow> jsval" where
  "playerOn3 html =
     (let college =
            (if find_length html ''img.PlayerRankingItem_committedLogo__w1QtO'' > 0 then
               (case find_attr html ''img.PlayerRankingItem_committedLogo__w1QtO'' ''title'' of
                  None \<Rightarrow> Undefined | Some t \<Rightarrow> Str t)
             else if find_length html ''div.PlayerRankingItem_prediction__LXknz'' > 0 then
               Str ''uncommitted''
             else Str ''unknown'');
          highSchool = trim (find_text html ''a.PlayerRankingItem_highSchool__yTm5m'');
          homeTown = trim (find_text html ''span.PlayerRankingItem_homeTownName__C2R9c'')
      in Obj
        [(''ranking'', Str (trim (find_text html ''p.PlayerRankingItem_overallRank__ttJJC''))),
         (''name'', Str (trim (find_text html ''div.PlayerRankingItem_name__Xrs6_''))),
         (''highSchool'', Str (highSchool @ '' '' @ homeTown)),
         (''position'', Str (trim (find_text html ''span.PlayerRankingItem_position__xH0rl''))),
         (''height'', Str (find_text html ''span.PlayerRankingItem_height__zEWyC'')),
         (''weight'', Num 0),
         (''stars'',
            Num (int (find_length html ''span.StarRating_star__GR_Ff span.MuiRating-iconFilled''))),
         (''college'', college),
         (''rating'', Str (trim (find_text html ''span.StarRating_overallRating__wz9dE''))),
         (''nilValue'', Str (trim (find_text html ''p.PlayerRankingItem_nilValuation__hzo42'')))])"

subsection \<open>The items of ESPN\<close>

text \<open>
  Lines 366-392. \<^verbatim>\<open>attributes\<close> (line 373) is declared nowhere in the function or the
  module, so the name is looked up in the global scope: a ReferenceError when the host
  does not define it. When it does, \<^verbatim>\<open>attributes.find\<close> is the array method: the first
  element whose \<^verbatim>\<open>type\<close> is the number 0, or \<^verbatim>\<open>undefined\<close>.
\<close>

fun find_type0 :: "jsval list \<Rightarrow> js_error + jsval" where
  "find_type0 [] = Inr Undefined"
| "find_type0 (attr # rest) =
     and_then (get_prop attr ''type'') (\<lambda>t. if t = Num 0 then Inr attr else find_type0 rest)"

definition resolve_attributes :: "host \<Rightarrow> js_error + jsval" where
  "resolve_attributes h =
     (case global_attributes h of
        None \<Rightarrow> Inl (ReferenceError ''attributes'')
      | Some a \<Rightarrow> Inr a)"

definition attributes_find :: "jsval \<Rightarrow> js_error + jsval" where
  "attributes_find a = (case a of Arr xs \<Rightarrow> find_type0 xs | other \<Rightarrow> Inl (TypeError ''find''))"

definition playerESPN :: "host \<Rightarrow> int \<Rightarrow> jsval \<Rightarrow> js_error + jsval" where
  "playerESPN h rank record =
     and_then (get_prop record ''athlete'') (\<lambda>athlete.
     and_then (get_prop athlete ''position'') (\<lambda>athlete_position.
     and_then (get_prop athlete_position ''abbreviation'') (\<lambda>position.
     and_then (resolve_attributes h) (\<lambda>attributes.
     and_then (attributes_find attributes) (\<lambda>type0Attribute.
     and_then (if truthy type0Attribute then get_prop type0Attribute ''value''
               else Inr (Num rank)) (\<lambda>finalRank.
     and_then (get_prop athlete ''id'') (\<lambda>athlete_id.
     and_then (get_prop athlete ''alternateId'') (\<lambda>alternateId.
     and_then (get_prop athlete ''fullName'') (\<lambda>fullName.
     and_then (get_prop athlete ''hometown'') (\<lambda>hometown.
     and_then (get_prop hometown ''city'') (\<lambda>city.
     and_then (get_prop hometown ''stateAbbreviation'') (\<lambda>stateAbbreviation.
     and_then (get_prop athlete ''height'') (\<lambda>height.
     and_then (get_prop athlete ''weight'') (\<lambda>weight.
     and_then (get_prop record ''grade'') (\<lambda>grade.
     Inr (Obj
       [(''id'', athlete_id),
        (''alt_id'', alternateId),
        (''ranking'', finalRank),
        (''name'', fullName),
        (''highSchool'', Str (toString city @ '', '' @ toString stateAbbreviation)),
        (''position'', position),
        (''height'', height),
        (''weight'', weight),
        (''stars'', Num 0),
        (''college'', Str ''''),
        (''rating'', grade)]))))))))))))))))"

fun eachESPN :: "host \<Rightarrow> int \<Rightarrow> jsval list \<Rightarrow> js_error + jsval list" where
  "eachESPN h rank [] = Inr []"
| "eachESPN h rank (record # rest) =
     and_then (playerESPN h rank record) (\<lambda>player.
     and_then (eachESPN h (rank + 1) rest) (\<lambda>players.
     Inr (player # players)))"

text \<open>\<^verbatim>\<open>for (const record of allItems)\<close>: an array gives its elements, a string its
  characters, and nothing else that JSON holds can be iterated.\<close>

definition iterate :: "jsval \<Rightarrow> js_error + jsval list" where
  "iterate v =
     (case v of
        Arr xs \<Rightarrow> Inr xs
      | Str s \<Rightarrow> Inr (map (\<lambda>c. Str [c]) s)
      | other \<Rightarrow> Inl (TypeError ''not iterable''))"

subsection \<open>The operation\<close>

text \<open>
  Line 276 declares \<^verbatim>\<open>$\<close> with \<^verbatim>\<open>let\<close> inside the block of the \<^verbatim>\<open>if\<close> of line 275, so
  the binding ends at line 277. The \<^verbatim>\<open>$\<close> of lines 284, 307 and 329 is therefore not
  the document loaded from the response: like \<^verbatim>\<open>attributes\<close> it is looked up in the
  global scope, a ReferenceError when the host does not define it. A host that does is
  taken to define it as a loaded cheerio document. The call of \<^verbatim>\<open>cheerio.load\<close> in line
  276 can throw; when it returns, its result is dropped with the block.
\<close>

definition resolve_dollar :: "host \<Rightarrow> js_error + cheerio" where
  "resolve_dollar h =
     (case global_dollar h of
        None \<Rightarrow> Inl (ReferenceError ''$'')
      | Some dollar \<Rightarrow> Inr dollar)"

definition load_and_drop :: "host \<Rightarrow> string \<Rightarrow> jsval \<Rightarrow> js_error + unit" where
  "load_and_drop h svc htmlResponse =
     (if toLowerCase svc \<noteq> ''espn''
      then and_then (cheerio_load h htmlResponse) (\<lambda>dropped. Inr ())
      else Inr ())"

definition extract_players :: "host \<Rightarrow> string \<Rightarrow> int \<Rightarrow> jsval \<Rightarrow> js_error + jsval list" where
  "extract_players h svc pg htmlResponse =
     and_then (load_and_drop h svc htmlResponse) (\<lambda>u.
      if toLowerCase svc = ''247'' \<or> toLowerCase svc = ''247composite'' then
        and_then (resolve_dollar h) (\<lambda>dollar.
        Inr (each247 h (1 + 50 * (pg - 1))
               (dollar ''ul.rankings-page__list > li.rankings-page__list-item:not(.rankings-page__list-item--header)'')))
      else if toLowerCase svc = ''rivals'' then
        and_then (resolve_dollar h) (\<lambda>dollar.
        Inr (map playerRivals (dollar ''div.scrollable-table-container table > tbody > tr'')))
      else if toLowerCase svc = ''on3'' \<or> toLowerCase svc = ''on3composite'' then
        and_then (resolve_dollar h) (\<lambda>dollar.
        Inr (map playerOn3
               (dollar ''section.PlayerRankings_playerRankings__7DK27 > div.PlayerRankingItem_playerRankingItem__P26jQ'')))
      else if toLowerCase svc = ''espn'' then
        and_then (get_prop htmlResponse ''items'') (\<lambda>allItems.
        and_then (iterate allItems) (\<lambda>records.
        eachESPN h (1 + 25 * (pg - 1)) records))
      else Inr [])"

definition getPlayerRankings ::
    "host \<Rightarrow> world \<Rightarrow> rankings_opts \<Rightarrow> (effect list \<times> (js_error + jsval list)) option" where
  "getPlayerRankings h w opts =
     (case rankings_target opts of
        Inl e \<Rightarrow> Some ([], Inl e)
      | Inr (baseUrl, axiosConfig) \<Rightarrow>
          (case fetchRankingsData w baseUrl axiosConfig (service_of opts) of
             None \<Rightarrow> None
           | Some (trace, Inl e) \<Rightarrow> Some (trace, Inl e)
           | Some (trace, Inr htmlResponse) \<Rightarrow>
               Some (trace, extract_players h (service_of opts) (page_of opts) htmlResponse)))"

section \<open>Pages and hosts for the examples\<close>

text \<open>
  A row that answers the selectors for the name and the rating with the given texts and
  every other selector with nothing; a page of ten rows of which the first carries no
  name and no rating, and the last a name that is a single no-break space.
\<close>

definition text_row :: "string \<Rightarrow> string \<Rightarrow> element" where
  "text_row name rating =
     \<lparr>find_text = (\<lambda>sel.
          if sel = ''.ri-page__name-link'' \<or> sel = ''.rankings-page__name-link''
             \<or> sel = ''div.PlayerRankingItem_name__Xrs6_'' then name
          else if sel = ''.score'' \<or> sel = ''.avg''
             \<or> sel = ''span.StarRating_overallRating__wz9dE'' then rating
          else ''''),
      find_length = (\<lambda>sel. 0),
      find_attr = (\<lambda>sel attr. None),
      find_own_text = (\<lambda>sel. if sel = ''span.score'' then rating else ''''),
      find_first_text = (\<lambda>sel. ''''),
      find_nth_text = (\<lambda>sel i. '''')\<rparr>"

definition ten_rows :: "element list" where
  "ten_rows =
     [text_row '''' '''',
      text_row ''A'' ''99'', text_row ''B'' ''98'', text_row ''C'' ''97'', text_row ''D'' ''96'',
      text_row ''E'' ''95'', text_row ''F'' ''94'', text_row ''G'' ''93'', text_row ''H'' ''92'',
      text_row [CHR 0xA0] ''91'']"

text \<open>
  A host as Node is, without a global \<^verbatim>\<open>$\<close> or \<^verbatim>\<open>attributes\<close>, whose parser finds the
  given rows for every selector. \<^verbatim>\<open>parseFloat\<close> agrees with \<^verbatim>\<open>parseInt\<close> on the texts of
  these pages, which hold integers.
\<close>

definition node_host :: "element list \<Rightarrow> host" where
  "node_host rows =
     \<lparr>parse_document = (\<lambda>data. Inr (\<lambda>sel. rows)),
      parseFloat = parseInt10,
      global_dollar = None,
      global_attributes = None\<rparr>"

definition rankings_for :: "int \<Rightarrow> string \<Rightarrow> rankings_opts" where
  "rankings_for pg svc =
     \<lparr>year = Num 2024, page = Some pg, group = Undefined, position = Undefined,
      state = Undefined, service = Some svc\<rparr>"

text \<open>A response of the ESPN recruiting feed with one athlete.\<close>

definition espn_response :: jsval where
  "espn_response =
     Obj [(''items'',
       Arr [Obj [(''athlete'',
                   Obj [(''id'', Str ''1''),
                        (''fullName'', Str ''A B''),
                        (''position'', Obj [(''abbreviation'', Str ''QB'')]),
                        (''hometown'', Obj [(''city'', Str ''Miami''),
                                            (''stateAbbreviation'', Str ''FL'')])]),
                 (''grade'', Num 90)]])]"


section \<open>Decimal strings and parseInt\<close>

lemma show_nat_small: "n < 10 \<Longrightarrow> show_nat n = [digit_char n]"
  by (subst show_nat.simps) simp

lemma show_nat_large:
  "10 \<le> n \<Longrightarrow> show_nat n = show_nat (n div 10) @ [digit_char (n mod 10)]"
  by (subst show_nat.simps) simp

lemma below_ten:
  assumes "(d::nat) < 10"
  shows "d \<in> {0, 1, 2, 3, 4, 5, 6, 7, 8, 9}"
  using assms by auto

lemma digit_val_digit_char: "d < 10 \<Longrightarrow> digit_val (digit_char d) = Some d"
  using below_ten [of d] by (auto simp: digit_val_def digit_char_def)

lemma digit_char_not_ws: "d < 10 \<Longrightarrow> \<not> is_ws (digit_char d)"
  using below_ten [of d] by (auto simp: is_ws_def digit_char_def)

lemma digit_char_not_sign:
  "d < 10 \<Longrightarrow> digit_char d \<noteq> CHR ''-'' \<and> digit_char d \<noteq> CHR ''+''"
  using below_ten [of d] by (auto simp: digit_char_def)

lemma is_digit_digit_char: "d < 10 \<Longrightarrow> is_digit (digit_char d)"
  by (simp add: is_digit_def digit_val_digit_char)

lemma show_nat_digits: "c \<in> set (show_nat n) \<Longrightarrow> is_digit c"
proof (induction n arbitrary: c rule: show_nat.induct)
  case (1 n)
  show ?case
  proof (cases "n < 10")
    case True
    with "1.prems" show ?thesis
      by (simp add: show_nat_small is_digit_digit_char)
  next
    case False
    with "1.prems" "1.IH" show ?thesis
      by (auto simp: show_nat_large is_digit_digit_char)
  qed
qed

lemma show_nat_Cons: "\<exists>d rest. d < 10 \<and> show_nat n = digit_char d # rest"
proof (induction n rule: show_nat.induct)
  case (1 n)
  show ?case
  proof (cases "n < 10")
    case True
    then show ?thesis by (auto simp: show_nat_small)
  next
    case False
    with "1.IH" obtain d rest where "d < 10" "show_nat (n div 10) = digit_char d # rest"
      by auto
    with False show ?thesis by (auto simp: show_nat_large)
  qed
qed

lemma radix_value_snoc:
  "\<forall>c \<in> set xs. is_digit c \<Longrightarrow> digit_val x = Some d \<Longrightarrow>
   radix_value r digit_val acc (xs @ [x]) = r * radix_value r digit_val acc xs + d"
  by (induction xs arbitrary: acc) (auto simp: is_digit_def)

lemma radix_value_show_nat: "radix_value 10 digit_val 0 (show_nat n) = n"
proof (induction n rule: show_nat.induct)
  case (1 n)
  show ?case
  proof (cases "n < 10")
    case True
    then show ?thesis by (simp add: show_nat_small digit_val_digit_char)
  next
    case False
    then have "radix_value 10 digit_val 0 (show_nat (n div 10)) = n div 10"
      using "1.IH" by simp
    with False show ?thesis
      by (simp add: show_nat_large radix_value_snoc show_nat_digits digit_val_digit_char)
  qed
qed

lemma takeWhile_digits_show_nat:
  "takeWhile is_digit (show_nat n) = show_nat n"
  by (simp add: takeWhile_eq_all_conv show_nat_digits)

lemma show_nat_no_hex_prefix: "take 2 (show_nat n) \<noteq> ''0x'' \<and> take 2 (show_nat n) \<noteq> ''0X''"
proof -
  have x: "\<not> is_digit CHR ''x''" "\<not> is_digit CHR ''X''"
    by (simp_all add: is_digit_def digit_val_def)
  have "set (take 2 (show_nat n)) \<subseteq> set (show_nat n)" by (rule set_take_subset)
  then have "\<And>c. c \<in> set (take 2 (show_nat n)) \<Longrightarrow> is_digit c"
    using show_nat_digits by blast
  with x show ?thesis by fastforce
qed

lemma parseInt_string_show_nat: "parseInt_string b (show_nat n) = Num (int n)"
proof -
  obtain d rest where d: "d < 10" "show_nat n = digit_char d # rest"
    using show_nat_Cons by blast
  have ws: "dropWhile is_ws (show_nat n) = show_nat n"
    using d by (simp add: digit_char_not_ws)
  have sign: "take 1 (show_nat n) \<noteq> ''-''" "take 1 (show_nat n) \<noteq> ''+''"
    using d digit_char_not_sign [of d] by simp_all
  have nonempty: "show_nat n \<noteq> []" using d by simp
  show ?thesis
    unfolding parseInt_string_def Let_def ws
    using sign nonempty show_nat_no_hex_prefix [of n]
    by (simp add: takeWhile_digits_show_nat radix_value_show_nat)
qed

lemma parseInt_string_show_int: "parseInt_string b (show_int i) = Num i"
proof (cases "i < 0")
  case False
  then show ?thesis by (simp add: show_int_def parseInt_string_show_nat)
next
  case True
  let ?s = "show_nat (nat (- i))"
  obtain d rest where d: "d < 10" "?s = digit_char d # rest"
    using show_nat_Cons by blast
  have minus: "\<not> is_ws CHR ''-''" by (simp add: is_ws_def)
  have nonempty: "?s \<noteq> []" using d by simp
  have "parseInt_string b (CHR ''-'' # ?s) = Num (- int (nat (- i)))"
    unfolding parseInt_string_def Let_def
    using minus nonempty show_nat_no_hex_prefix [of "nat (- i)"]
    by (simp add: takeWhile_digits_show_nat radix_value_show_nat)
  with True show ?thesis by (simp add: show_int_def)
qed

lemma parseInt_Num: "parseInt (Num i) = Num i"
  by (simp add: parseInt_def parseInt_string_show_int)

lemma split_from_nonempty: "split_from sep cur s \<noteq> []"
  by (induction sep cur s rule: split_from.induct) auto

lemma split_str_nonempty: "split_str s sep \<noteq> []"
  by (simp add: split_str_def split_from_nonempty)

lemma is_digit_cases: "is_digit c \<Longrightarrow> c \<in> set ''0123456789''"
  by (simp add: is_digit_def digit_val_def split: if_splits)

lemma is_digit_plain:
  assumes "is_digit c"
  shows "\<not> is_ws c" "c \<noteq> CHR ''-''" "c \<noteq> CHR ''+''" "c \<noteq> CHR ''x''" "c \<noteq> CHR ''X''"
  using is_digit_cases [OF assms] by (auto simp: is_ws_def)

lemma radix_value_append:
  "\<forall>c \<in> set xs. is_digit c \<Longrightarrow>
   radix_value r digit_val acc (xs @ ys) = radix_value r digit_val (radix_value r digit_val acc xs) ys"
  by (induction xs arbitrary: acc) (auto simp: is_digit_def)

lemma radix_value_zeros: "radix_value 10 digit_val 0 (replicate z CHR ''0'') = 0"
  by (induction z) (simp_all add: digit_val_def)

lemma is_digit_zero: "is_digit CHR ''0''"
  by (simp add: is_digit_def digit_val_def)

text \<open>A string of decimal digits is read whole, with or without the radix.\<close>

lemma parseInt_string_digits:
  assumes "s \<noteq> []" and digits: "\<forall>c \<in> set s. is_digit c"
  shows "parseInt_string b s = Num (int (radix_value 10 digit_val 0 s))"
proof -
  from assms obtain c rest where s: "s = c # rest" and c: "is_digit c"
    by (cases s) auto
  have ws: "dropWhile is_ws s = s"
    using s is_digit_plain(1) [OF c] by simp
  have sign: "take 1 s \<noteq> ''-''" "take 1 s \<noteq> ''+''"
    using s is_digit_plain(2,3) [OF c] by simp_all
  have "set (take 2 s) \<subseteq> set s" by (rule set_take_subset)
  with digits have "\<forall>c \<in> set (take 2 s). is_digit c" by blast
  then have hex: "take 2 s \<noteq> ''0x''" "take 2 s \<noteq> ''0X''"
    using is_digit_plain(4,5) by fastforce+
  have all: "takeWhile is_digit s = s"
    using digits by (simp add: takeWhile_eq_all_conv)
  show ?thesis
    unfolding parseInt_string_def Let_def ws
    using sign hex assms(1) by (simp add: all)
qed

lemma parseInt_leading_zeros:
  "parseInt (Str (replicate z CHR ''0'' @ show_nat n)) = Num (int n)"
proof -
  let ?s = "replicate z CHR ''0'' @ show_nat n"
  have zeros: "\<forall>c \<in> set (replicate z CHR ''0''). is_digit c"
    by (simp add: is_digit_zero)
  have digits: "\<forall>c \<in> set ?s. is_digit c"
    using show_nat_digits by (auto simp: is_digit_zero)
  obtain d rest where "show_nat n = digit_char d # rest"
    using show_nat_Cons by blast
  then have nonempty: "?s \<noteq> []" by simp
  have "radix_value 10 digit_val 0 ?s = n"
    by (simp add: radix_value_append [OF zeros] radix_value_zeros radix_value_show_nat)
  with parseInt_string_digits [OF nonempty digits] show ?thesis
    by (simp add: parseInt_def)
qed

section \<open>Properties of the scroll loop\<close>

lemma timer_Resolved:
  "tick pg t k s = Resolved \<Longrightarrow> timer pg t k s = Some k"
  by (subst timer.simps) simp

lemma timer_Pending:
  "tick pg t k s = Pending s' \<Longrightarrow> timer pg t k s = timer pg t (Suc k) s'"
  by (subst timer.simps) simp

lemma tick_cases:
  "tick pg t k s = Resolved \<and> (t \<le> rows_at pg k \<or> maxAttempts \<le> attempts s)
   \<or> (\<exists>s'. tick pg t k s = Pending s' \<and> rows_at pg k < t \<and> attempts s < maxAttempts
        \<and> totalHeight s' = totalHeight s + distance
        \<and> attempts s' = (if scrollHeight_at pg k \<le> totalHeight s + distance
                          then attempts s + 1 else attempts s))"
  by (auto simp: tick_def Let_def)

lemma attempts_before_Suc:
  "1 \<le> k \<Longrightarrow>
   attempts_before pg (Suc k) = attempts_before pg k + (if counts_attempt pg k then 1 else 0)"
  by (simp add: attempts_before_def)

text \<open>
  The loop from any tick \<open>k\<close> on, for a page whose scroll height stays at or below \<open>H\<close>:
  once \<open>100 * k\<close> exceeds \<open>H\<close> every tick counts an attempt, so at most
  \<open>maxAttempts - attempts s\<close> further ticks run after the scroll has passed \<open>H\<close>. The
  state at tick \<open>k\<close> holds the distance scrolled and the attempts counted before \<open>k\<close>.
\<close>

lemma timer_bounded_height:
  assumes bound: "\<And>j. scrollHeight_at pg j \<le> H"
  shows "m = max k (H div 100 + 1) + (maxAttempts - attempts s) - k \<Longrightarrow>
         1 \<le> k \<Longrightarrow> totalHeight s + 100 = 100 * k \<Longrightarrow>
         attempts s = attempts_before pg k \<Longrightarrow>
         \<exists>n. timer pg t k s = Some n \<and> k \<le> n
           \<and> n \<le> max k (H div 100 + 1) + (maxAttempts - attempts s)
           \<and> stops_at pg t n \<and> (\<forall>j. k \<le> j \<and> j < n \<longrightarrow> \<not> stops_at pg t j)"
proof (induction m arbitrary: k s rule: less_induct)
  case (less m)
  note k1 = less.prems(2) and th0 = less.prems(3) and inv = less.prems(4)
  consider (resolved) "tick pg t k s = Resolved" "t \<le> rows_at pg k \<or> maxAttempts \<le> attempts s"
    | (pending) s' where "tick pg t k s = Pending s'" "rows_at pg k < t"
        "attempts s < maxAttempts" "totalHeight s' = totalHeight s + distance"
        "attempts s' = (if scrollHeight_at pg k \<le> totalHeight s + distance
                        then attempts s + 1 else attempts s)"
    using tick_cases [of pg t k s] by blast
  then show ?case
  proof cases
    case resolved
    from resolved(1) have "timer pg t k s = Some k" by (rule timer_Resolved)
    moreover from resolved(2) inv have "stops_at pg t k"
      by (simp add: stops_at_def maxAttempts_def)
    moreover have "k \<le> max k (H div 100 + 1) + (maxAttempts - attempts s)" by simp
    moreover have "\<forall>j. k \<le> j \<and> j < k \<longrightarrow> \<not> stops_at pg t j" by auto
    ultimately show ?thesis by blast
  next
    case pending
    note step = pending(1) and rows = pending(2) and att = pending(3)
      and th = pending(4) and at' = pending(5)
    have th': "totalHeight s' + 100 = 100 * Suc k"
      using th th0 by (simp add: distance_def)
    have cnt: "scrollHeight_at pg k \<le> totalHeight s + distance \<longleftrightarrow> counts_attempt pg k"
      using th0 by (simp add: counts_attempt_def distance_def)
    have inv': "attempts s' = attempts_before pg (Suc k)"
      using at' inv k1 by (simp add: attempts_before_Suc cnt)
    have here: "\<not> stops_at pg t k"
      using rows att inv by (simp add: stops_at_def maxAttempts_def)
    have counted: "H div 100 + 1 \<le> k \<Longrightarrow> attempts s' = attempts s + 1"
    proof -
      assume "H div 100 + 1 \<le> k"
      then have "H < 100 * k" by arith
      with bound [of k] have "scrollHeight_at pg k \<le> totalHeight s + distance"
        using th0 by (simp add: distance_def)
      with at' show ?thesis by simp
    qed
    have mono: "attempts s \<le> attempts s'" using at' by simp
    have le: "attempts s' \<le> maxAttempts" using at' att by simp
    have dec: "max (Suc k) (H div 100 + 1) + (maxAttempts - attempts s') - Suc k < m"
      using less.prems(1) att mono le counted by (cases "H div 100 + 1 \<le> k") auto
    have "1 \<le> Suc k" by simp
    from less.IH [OF dec refl this th' inv'] obtain n where
      n: "timer pg t (Suc k) s' = Some n" "Suc k \<le> n"
         "n \<le> max (Suc k) (H div 100 + 1) + (maxAttempts - attempts s')"
         "stops_at pg t n" "\<forall>j. Suc k \<le> j \<and> j < n \<longrightarrow> \<not> stops_at pg t j"
      by blast
    have "timer pg t k s = Some n"
      using timer_Pending [OF step] n(1) by simp
    moreover have "k \<le> n" using n(2) by simp
    moreover have "n \<le> max k (H div 100 + 1) + (maxAttempts - attempts s)"
      using n(3) att mono le counted by (cases "H div 100 + 1 \<le> k") auto
    moreover have "\<forall>j. k \<le> j \<and> j < n \<longrightarrow> \<not> stops_at pg t j"
    proof (intro allI impI)
      fix j assume j: "k \<le> j \<and> j < n"
      show "\<not> stops_at pg t j"
      proof (cases "j = k")
        case True
        with here show ?thesis by simp
      next
        case False
        with j have "Suc k \<le> j \<and> j < n" by simp
        with n(5) show ?thesis by blast
      qed
    qed
    ultimately show ?thesis using n(4) by blast
  qed
qed

lemma scroll_ahead_step:
  assumes "scroll_ahead pg t k s"
  shows "\<exists>s'. tick pg t k s = Pending s' \<and> scroll_ahead pg t (Suc k) s'"
  using assms
  by (auto simp: scroll_ahead_def tick_def growing_page_def distance_def maxAttempts_def Let_def)

lemma timer_growing_page:
  assumes "timer pg t k s = Some n"
  shows "\<not> scroll_ahead pg t k s"
proof (rule timer.raw_induct [where P = "\<lambda>pg t k s n. \<not> scroll_ahead pg t k s", OF _ assms])
  fix timer' pg t k s n
  assume IH: "\<And>pg t k s n. timer' pg t k s = Some n \<Longrightarrow> \<not> scroll_ahead pg t k s"
    and eq: "(case tick pg t k s of Resolved \<Rightarrow> Some k
              | Pending s' \<Rightarrow> timer' pg t (Suc k) s') = Some n"
  show "\<not> scroll_ahead pg t k s"
  proof
    assume "scroll_ahead pg t k s"
    then obtain s' where s': "tick pg t k s = Pending s'" "scroll_ahead pg t (Suc k) s'"
      using scroll_ahead_step by blast
    from eq s'(1) have "timer' pg t (Suc k) s' = Some n" by simp
    from IH [OF this] s'(2) show False by simp
  qed
qed

text \<open>
  Claim C1, as amended. The loop scrolls 100 pixels and counts the rows on every tick. It
  terminates for every page whose scroll height stays bounded, say by \<open>H\<close> pixels: it
  resolves at some tick \<open>n\<close> with \<open>1 \<le> n \<le> H div 100 + 21\<close>, and \<open>n\<close> is the first tick
  that finds the row target (250 unless given) met or 20 attempts counted at earlier
  ticks, a tick counting as an attempt only when the distance scrolled has reached the
  scroll height read at that tick. (The number of ticks is not bounded by the 20 attempts
  alone, and a page that keeps growing ahead of the scroll is not covered.)
\<close>

theorem autoScroll_terminates_bounded_height:
  assumes "\<And>j. scrollHeight_at pg j \<le> H"
  shows "\<exists>n. autoScroll pg targetRowCount = Some n \<and> 1 \<le> n \<and> n \<le> H div 100 + 21
           \<and> stops_at pg (case targetRowCount of None \<Rightarrow> 250 | Some t \<Rightarrow> t) n
           \<and> (\<forall>j. 1 \<le> j \<and> j < n \<longrightarrow>
                 \<not> stops_at pg (case targetRowCount of None \<Rightarrow> 250 | Some t \<Rightarrow> t) j)"
proof -
  let ?s = "\<lparr>totalHeight = 0, attempts = 0\<rparr>"
  let ?t = "case targetRowCount of None \<Rightarrow> 250 | Some t \<Rightarrow> t"
  have th: "totalHeight ?s + 100 = 100 * 1" by simp
  have inv: "attempts ?s = attempts_before pg 1" by (simp add: attempts_before_def)
  have one: "(1::nat) \<le> 1" by simp
  from timer_bounded_height [OF assms refl one th inv, where t = ?t]
  obtain n where
    n: "timer pg ?t 1 ?s = Some n"
       "1 \<le> n" "n \<le> max 1 (H div 100 + 1) + (maxAttempts - attempts ?s)"
       "stops_at pg ?t n" "\<forall>j. 1 \<le> j \<and> j < n \<longrightarrow> \<not> stops_at pg ?t j"
    by blast
  from n(3) have "n \<le> H div 100 + 21" by (simp add: maxAttempts_def)
  with n(1,2,4,5) show ?thesis
    unfolding autoScroll_def by blast
qed

theorem autoScroll_terminates_bounded_height_witness:
  "(\<forall>j. scrollHeight_at (static_page 0 10000) j \<le> 10000)
   \<and> (\<exists>n. autoScroll (static_page 0 10000) None = Some n \<and> 1 \<le> n \<and> n \<le> 121)"
proof -
  have h: "\<And>j. scrollHeight_at (static_page 0 10000) j \<le> 10000"
    by (simp add: static_page_def)
  from autoScroll_terminates_bounded_height [of "static_page 0 10000" 10000 None, OF h]
  show ?thesis using h by auto
qed

text \<open>
  Claim C1 as stated fails twice. On the growing page the promise never resolves; and on
  a page that never changes, 10000 pixels high and without a matching row, the loop
  resolves at tick 120, after six times the 20 intervals.
\<close>

theorem autoScroll_unbounded_counterexample:
  "autoScroll growing_page None = None
   \<and> autoScroll (static_page 0 10000) None = Some 120"
proof
  show "autoScroll growing_page None = None"
  proof (cases "autoScroll growing_page None")
    case None
    then show ?thesis .
  next
    case (Some n)
    then have "timer growing_page 250 1 \<lparr>totalHeight = 0, attempts = 0\<rparr> = Some n"
      by (simp add: autoScroll_def)
    from timer_growing_page [OF this] show ?thesis by (simp add: scroll_ahead_def)
  qed
next
  have above: "\<And>k a. th + 100 < 10000 \<Longrightarrow> a < 20 \<Longrightarrow>
      tick (static_page 0 10000) 250 k \<lparr>totalHeight = th, attempts = a\<rparr>
        = Pending \<lparr>totalHeight = th + 100, attempts = a\<rparr>" for th
    by (simp add: tick_def static_page_def distance_def maxAttempts_def)
  have bottom: "\<And>k a. 10000 \<le> th + 100 \<Longrightarrow> a < 20 \<Longrightarrow>
      tick (static_page 0 10000) 250 k \<lparr>totalHeight = th, attempts = a\<rparr>
        = Pending \<lparr>totalHeight = th + 100, attempts = Suc a\<rparr>" for th
    by (simp add: tick_def static_page_def distance_def maxAttempts_def)
  have stop: "\<And>k a. 20 \<le> a \<Longrightarrow>
      tick (static_page 0 10000) 250 k \<lparr>totalHeight = th, attempts = a\<rparr> = Resolved" for th
    by (simp add: tick_def static_page_def distance_def maxAttempts_def)
  show "autoScroll (static_page 0 10000) None = Some 120"
    unfolding autoScroll_def
    by (simp add: timer_Pending [OF above] timer_Pending [OF bottom] timer_Resolved [OF stop])
qed

section \<open>The dates parameter and the defaults\<close>

lemma fixed_width_2: "fixed_width 2 n = [digit_char (n div 10 mod 10), digit_char (n mod 10)]"
  by (simp add: fixed_width_def upt_rec numeral_2_eq_2)

lemma fixed_width_4:
  "fixed_width 4 n =
     [digit_char (n div 1000 mod 10), digit_char (n div 100 mod 10),
      digit_char (n div 10 mod 10), digit_char (n mod 10)]"
proof -
  have "[0 ..< 4] = [0, 1, 2, 3::nat]" by (simp add: upt_rec)
  then show ?thesis by (simp add: fixed_width_def)
qed

lemma show_nat_two_digits: "10 \<le> n \<Longrightarrow> n < 100 \<Longrightarrow> show_nat n = fixed_width 2 n"
  by (simp add: show_nat_large show_nat_small fixed_width_2)

lemma show_nat_one_digit: "n < 10 \<Longrightarrow> CHR ''0'' # show_nat n = fixed_width 2 n"
  by (simp add: show_nat_small fixed_width_2 digit_char_def)

lemma show_nat_four_digits:
  assumes "1000 \<le> n" "n < 10000"
  shows "show_nat n = fixed_width 4 n"
proof -
  have d: "n div 10 div 10 = n div 100" "n div 100 div 10 = n div 1000"
    by (simp_all add: div_mult2_eq [symmetric])
  have "show_nat n = show_nat (n div 10) @ [digit_char (n mod 10)]"
    using assms by (intro show_nat_large) simp
  also have "show_nat (n div 10) = show_nat (n div 100) @ [digit_char (n div 10 mod 10)]"
    using assms show_nat_large [of "n div 10"] by (simp add: d)
  also have "show_nat (n div 100) = show_nat (n div 1000) @ [digit_char (n div 100 mod 10)]"
    using assms show_nat_large [of "n div 100"] by (simp add: d)
  also have "show_nat (n div 1000) = [digit_char (n div 1000 mod 10)]"
    using assms show_nat_small [of "n div 1000"] by simp
  finally show ?thesis by (simp add: fixed_width_4)
qed

lemma zero_pad_two_digits:
  assumes "parseInt v = Num (int n)" "1 \<le> n" "n < 100"
  shows "zero_pad v = fixed_width 2 n"
proof (cases "n \<le> 9")
  case True
  then have "CHR ''0'' # show_nat n = fixed_width 2 n" by (simp add: show_nat_one_digit)
  with True assms(1) show ?thesis by (simp add: zero_pad_def show_int_def)
next
  case False
  with assms have "show_nat n = fixed_width 2 n" by (simp add: show_nat_two_digits)
  with False assms(1) show ?thesis by (simp add: zero_pad_def show_int_def)
qed

lemma length_fixed_width: "length (fixed_width w n) = w"
  by (simp add: fixed_width_def)

text \<open>
  The values the date theorem speaks of: a year given as a number of four digits or as a
  string of four digits, and a month or day given as a number or as its decimal numeral,
  with or without leading zeros.
\<close>

lemma year_value:
  assumes "(yv = Num (int y) \<and> 1000 \<le> y \<or> yv = Str (fixed_width 4 y)) \<and> y \<le> 9999"
  shows "truthy yv \<and> toString yv = fixed_width 4 y"
proof -
  from assms consider "yv = Num (int y)" "1000 \<le> y" "y < 10000" | "yv = Str (fixed_width 4 y)"
    by fastforce
  then show ?thesis
  proof cases
    case 1
    then show ?thesis
      by (simp add: truthy_def show_int_def show_nat_four_digits)
  next
    case 2
    have "fixed_width 4 y \<noteq> []"
      using length_fixed_width [of 4 y] by auto
    with 2 show ?thesis by (simp add: truthy_def)
  qed
qed

lemma month_or_day_value:
  assumes "v = Num (int n) \<or> v = Str (replicate z CHR ''0'' @ show_nat n)" "1 \<le> n" "n \<le> 99"
  shows "truthy v \<and> zero_pad v = fixed_width 2 n"
proof -
  have p: "parseInt v = Num (int n)"
    using assms(1) by (auto simp: parseInt_Num parseInt_leading_zeros)
  obtain c rest where "show_nat n = digit_char c # rest"
    using show_nat_Cons by blast
  then have "replicate z CHR ''0'' @ show_nat n \<noteq> []" by simp
  with assms have "truthy v" by (auto simp: truthy_def)
  moreover have "zero_pad v = fixed_width 2 n"
    using p assms(2,3) by (intro zero_pad_two_digits) auto
  ultimately show ?thesis by simp
qed

lemma dates_param_present:
  assumes "(yv = Num (int y) \<and> 1000 \<le> y \<or> yv = Str (fixed_width 4 y)) \<and> y \<le> 9999"
    and "mv = Num (int m) \<or> mv = Str (replicate zm CHR ''0'' @ show_nat m)" "1 \<le> m" "m \<le> 99"
    and "dv = Num (int d) \<or> dv = Str (replicate zd CHR ''0'' @ show_nat d)" "1 \<le> d" "d \<le> 99"
  shows "dates_param yv mv dv = [(''dates'', Str (yyyymmdd y m d))]"
  using year_value [OF assms(1)] month_or_day_value [OF assms(2,3,4)]
    month_or_day_value [OF assms(5,6,7)]
  by (simp add: dates_param_def yyyymmdd_def)

lemma dates_param_absent:
  "y = Undefined \<or> m = Undefined \<or> d = Undefined \<Longrightarrow> dates_param y m d = []"
  by (auto simp: dates_param_def truthy_def)

lemma length_yyyymmdd: "length (yyyymmdd y m d) = 8"
  by (simp add: yyyymmdd_def fixed_width_def)

lemma getSchedule_params_dates:
  "map_of (getSchedule_params opts) ''dates''
     = map_of (dates_param (year opts) (month opts) (day opts)) ''dates''"
  by (simp add: getSchedule_params_def)

lemma getScoreboard_params_dates:
  "map_of (getScoreboard_params opts) ''dates''
     = map_of (dates_param (year opts) (month opts) (day opts)) ''dates''"
  by (simp add: getScoreboard_params_def)

text \<open>The one request each operation sends, whatever the answer to it is.\<close>

lemma getSchedule_request:
  "fst (getSchedule w opts)
     = [AxiosGet ''http://cdn.espn.com/core/college-football/schedule''
          \<lparr>headers = [], params = Some (getSchedule_params opts)\<rparr>]"
  by (simp add: getSchedule_def Let_def)

lemma getScoreboard_request:
  "fst (getScoreboard w opts)
     = [AxiosGet ''http://site.api.espn.com/apis/site/v2/sports/football/college-football/scoreboard''
          \<lparr>headers = [], params = Some (getScoreboard_params opts)\<rparr>]"
  by (simp add: getScoreboard_def Let_def)

text \<open>
  Claim C3. Take a year of four digits, given as a number or as a string, and a month and
  a day between 1 and 99, each given as a number or as a decimal string with or without
  leading zeros. Then the one request that \<open>getSchedule\<close> sends, and the one that
  \<open>getScoreboard\<close> sends, carries the query parameter \<open>dates\<close> with the eight characters
  \<open>YYYYMMDD\<close>, month and day padded to two digits. When the year, the month or the day is
  left out, the request carries no \<open>dates\<close> parameter.
\<close>

theorem dates_parameter_fixed_width:
  fixes sched :: schedule_opts and board :: scoreboard_opts
  shows "((yv = Num (int y) \<and> 1000 \<le> y \<or> yv = Str (fixed_width 4 y)) \<and> y \<le> 9999
          \<and> (mv = Num (int m) \<or> mv = Str (replicate zm CHR ''0'' @ show_nat m))
          \<and> 1 \<le> m \<and> m \<le> 99
          \<and> (dv = Num (int d) \<or> dv = Str (replicate zd CHR ''0'' @ show_nat d))
          \<and> 1 \<le> d \<and> d \<le> 99
          \<longrightarrow>
            (\<exists>ps. fst (getSchedule w (sched\<lparr>year := yv, month := mv, day := dv\<rparr>))
                    = [AxiosGet ''http://cdn.espn.com/core/college-football/schedule''
                         \<lparr>headers = [], params = Some ps\<rparr>]
                  \<and> map_of ps ''dates'' = Some (Str (yyyymmdd y m d)))
          \<and> (\<exists>ps. fst (getScoreboard w (board\<lparr>year := yv, month := mv, day := dv\<rparr>))
                    = [AxiosGet ''http://site.api.espn.com/apis/site/v2/sports/football/college-football/scoreboard''
                         \<lparr>headers = [], params = Some ps\<rparr>]
                  \<and> map_of ps ''dates'' = Some (Str (yyyymmdd y m d)))
          \<and> length (yyyymmdd y m d) = 8)
       \<and> (year sched = Undefined \<or> month sched = Undefined \<or> day sched = Undefined \<longrightarrow>
            (\<exists>ps. fst (getSchedule w sched)
                    = [AxiosGet ''http://cdn.espn.com/core/college-football/schedule''
                         \<lparr>headers = [], params = Some ps\<rparr>]
                  \<and> map_of ps ''dates'' = None))
       \<and> (year board = Undefined \<or> month board = Undefined \<or> day board = Undefined \<longrightarrow>
            (\<exists>ps. fst (getScoreboard w board)
                    = [AxiosGet ''http://site.api.espn.com/apis/site/v2/sports/football/college-football/scoreboard''
                         \<lparr>headers = [], params = Some ps\<rparr>]
                  \<and> map_of ps ''dates'' = None))"
proof (intro conjI impI)
  assume a: "(yv = Num (int y) \<and> 1000 \<le> y \<or> yv = Str (fixed_width 4 y)) \<and> y \<le> 9999
          \<and> (mv = Num (int m) \<or> mv = Str (replicate zm CHR ''0'' @ show_nat m))
          \<and> 1 \<le> m \<and> m \<le> 99
          \<and> (dv = Num (int d) \<or> dv = Str (replicate zd CHR ''0'' @ show_nat d))
          \<and> 1 \<le> d \<and> d \<le> 99"
  then have "(yv = Num (int y) \<and> 1000 \<le> y \<or> yv = Str (fixed_width 4 y)) \<and> y \<le> 9999"
    and "mv = Num (int m) \<or> mv = Str (replicate zm CHR ''0'' @ show_nat m)" "1 \<le> m" "m \<le> 99"
    and "dv = Num (int d) \<or> dv = Str (replicate zd CHR ''0'' @ show_nat d)" "1 \<le> d" "d \<le> 99"
    by simp_all
  then have dp: "dates_param yv mv dv = [(''dates'', Str (yyyymmdd y m d))]"
    by (rule dates_param_present)
  show "\<exists>ps. fst (getSchedule w (sched\<lparr>year := yv, month := mv, day := dv\<rparr>))
                = [AxiosGet ''http://cdn.espn.com/core/college-football/schedule''
                     \<lparr>headers = [], params = Some ps\<rparr>]
              \<and> map_of ps ''dates'' = Some (Str (yyyymmdd y m d))"
    by (simp add: getSchedule_request getSchedule_params_dates dp)
  show "\<exists>ps. fst (getScoreboard w (board\<lparr>year := yv, month := mv, day := dv\<rparr>))
                = [AxiosGet ''http://site.api.espn.com/apis/site/v2/sports/football/college-football/scoreboard''
                     \<lparr>headers = [], params = Some ps\<rparr>]
              \<and> map_of ps ''dates'' = Some (Str (yyyymmdd y m d))"
    by (simp add: getScoreboard_request getScoreboard_params_dates dp)
  show "length (yyyymmdd y m d) = 8" by (rule length_yyyymmdd)
next
  assume "year sched = Undefined \<or> month sched = Undefined \<or> day sched = Undefined"
  then show "\<exists>ps. fst (getSchedule w sched)
                = [AxiosGet ''http://cdn.espn.com/core/college-football/schedule''
                     \<lparr>headers = [], params = Some ps\<rparr>]
              \<and> map_of ps ''dates'' = None"
    by (simp add: getSchedule_request getSchedule_params_dates dates_param_absent)
next
  assume "year board = Undefined \<or> month board = Undefined \<or> day board = Undefined"
  then show "\<exists>ps. fst (getScoreboard w board)
                = [AxiosGet ''http://site.api.espn.com/apis/site/v2/sports/football/college-football/scoreboard''
                     \<lparr>headers = [], params = Some ps\<rparr>]
              \<and> map_of ps ''dates'' = None"
    by (simp add: getScoreboard_request getScoreboard_params_dates dates_param_absent)
qed

theorem dates_parameter_fixed_width_witness:
  "fst (getSchedule (answering Null)
      \<lparr>year = Num 2019, month = Num 11, day = Num 16, groups = Undefined,
       seasontype = Undefined\<rparr>)
     = [AxiosGet ''http://cdn.espn.com/core/college-football/schedule''
          \<lparr>headers = [],
           params = Some [(''groups'', Num 80), (''seasontype'', Num 2), (''xhr'', Num 1),
                          (''render'', Bool False), (''device'', Str ''desktop''),
                          (''userab'', Num 18), (''dates'', Str ''20191116'')]\<rparr>]
   \<and> (\<exists>ps. fst (getScoreboard (answering Null)
               \<lparr>year = Str ''2019'', month = Str ''01'', day = Str ''5'', groups = Undefined,
                seasontype = Undefined, limit = Undefined\<rparr>)
             = [AxiosGet ''http://site.api.espn.com/apis/site/v2/sports/football/college-football/scoreboard''
                  \<lparr>headers = [], params = Some ps\<rparr>]
           \<and> map_of ps ''dates'' = Some (Str ''20190105''))
   \<and> (\<exists>ps. fst (getSchedule (answering Null)
               \<lparr>year = Num 2019, month = Undefined, day = Num 16, groups = Undefined,
                seasontype = Undefined\<rparr>)
             = [AxiosGet ''http://cdn.espn.com/core/college-football/schedule''
                  \<lparr>headers = [], params = Some ps\<rparr>]
           \<and> map_of ps ''dates'' = None)"
proof -
  let ?w = "answering Null"
  let ?s = "\<lparr>year = Num 2019, month = Undefined, day = Num 16, groups = Undefined,
             seasontype = Undefined\<rparr>"
  let ?b = "\<lparr>year = Undefined, month = Undefined, day = Undefined, groups = Undefined,
             seasontype = Undefined, limit = Undefined\<rparr>"
  have e1: "yyyymmdd 2019 11 16 = ''20191116''"
    by (simp add: yyyymmdd_def fixed_width_2 fixed_width_4 digit_char_def)
  have e2: "yyyymmdd 2019 (Suc 0) 5 = ''20190105''"
    by (simp add: yyyymmdd_def fixed_width_2 fixed_width_4 digit_char_def)
  have h1: "(Num 2019 = Num (int 2019) \<and> 1000 \<le> (2019::nat) \<or> Num 2019 = Str (fixed_width 4 2019))
        \<and> (2019::nat) \<le> 9999
        \<and> (Num 11 = Num (int 11) \<or> Num 11 = Str (replicate 0 CHR ''0'' @ show_nat 11))
        \<and> 1 \<le> (11::nat) \<and> (11::nat) \<le> 99
        \<and> (Num 16 = Num (int 16) \<or> Num 16 = Str (replicate 0 CHR ''0'' @ show_nat 16))
        \<and> 1 \<le> (16::nat) \<and> (16::nat) \<le> 99"
    by simp
  have h2: "(Str ''2019'' = Num (int 2019) \<and> 1000 \<le> (2019::nat)
          \<or> Str ''2019'' = Str (fixed_width 4 2019))
        \<and> (2019::nat) \<le> 9999
        \<and> (Str ''01'' = Num (int 1) \<or> Str ''01'' = Str (replicate (Suc 0) CHR ''0'' @ show_nat 1))
        \<and> 1 \<le> (1::nat) \<and> (1::nat) \<le> 99
        \<and> (Str ''5'' = Num (int 5) \<or> Str ''5'' = Str (replicate 0 CHR ''0'' @ show_nat 5))
        \<and> 1 \<le> (5::nat) \<and> (5::nat) \<le> 99"
    by (simp add: fixed_width_4 show_nat.simps digit_char_def)
  have h3: "year ?s = Undefined \<or> month ?s = Undefined \<or> day ?s = Undefined"
    by simp
  note t1 = dates_parameter_fixed_width
    [where yv = "Num 2019" and y = 2019 and mv = "Num 11" and m = 11 and zm = 0
       and dv = "Num 16" and d = 16 and zd = 0 and w = ?w and sched = ?s and board = ?b]
  note t2 = dates_parameter_fixed_width
    [where yv = "Str ''2019''" and y = 2019 and mv = "Str ''01''" and m = 1 and zm = "Suc 0"
       and dv = "Str ''5''" and d = 5 and zd = 0 and w = ?w and sched = ?s and board = ?b]
  from t1 [THEN conjunct1, THEN mp, OF h1, THEN conjunct1]
  have "\<exists>ps. fst (getSchedule ?w
               \<lparr>year = Num 2019, month = Num 11, day = Num 16, groups = Undefined,
                seasontype = Undefined\<rparr>)
             = [AxiosGet ''http://cdn.espn.com/core/college-football/schedule''
                  \<lparr>headers = [], params = Some ps\<rparr>]
           \<and> map_of ps ''dates'' = Some (Str ''20191116'')"
    by (simp add: e1)
  then have 1: "fst (getSchedule ?w
      \<lparr>year = Num 2019, month = Num 11, day = Num 16, groups = Undefined,
       seasontype = Undefined\<rparr>)
     = [AxiosGet ''http://cdn.espn.com/core/college-football/schedule''
          \<lparr>headers = [],
           params = Some [(''groups'', Num 80), (''seasontype'', Num 2), (''xhr'', Num 1),
                          (''render'', Bool False), (''device'', Str ''desktop''),
                          (''userab'', Num 18), (''dates'', Str ''20191116'')]\<rparr>]"
    by (auto simp: getSchedule_request getSchedule_params_def or_default_def dates_param_def
        truthy_def split: if_splits)
  from t2 [THEN conjunct1, THEN mp, OF h2, THEN conjunct2, THEN conjunct1]
  have 2: "\<exists>ps. fst (getScoreboard ?w
               \<lparr>year = Str ''2019'', month = Str ''01'', day = Str ''5'', groups = Undefined,
                seasontype = Undefined, limit = Undefined\<rparr>)
             = [AxiosGet ''http://site.api.espn.com/apis/site/v2/sports/football/college-football/scoreboard''
                  \<lparr>headers = [], params = Some ps\<rparr>]
           \<and> map_of ps ''dates'' = Some (Str ''20190105'')"
    by (simp add: e2)
  from t1 [THEN conjunct2, THEN conjunct1, THEN mp, OF h3]
  have 3: "\<exists>ps. fst (getSchedule ?w ?s)
             = [AxiosGet ''http://cdn.espn.com/core/college-football/schedule''
                  \<lparr>headers = [], params = Some ps\<rparr>]
           \<and> map_of ps ''dates'' = None" .
  from 1 2 3 show ?thesis by blast
qed

text \<open>The defaults of the two queries, and what a caller's value does to them.\<close>

lemma schedule_defaults:
  "map_of (getSchedule_params opts) ''groups''
     = Some (if groups opts = Undefined then Num 80 else groups opts)"
  "map_of (getSchedule_params opts) ''seasontype''
     = Some (if seasontype opts = Undefined then Num 2 else seasontype opts)"
  by (simp_all add: getSchedule_params_def or_default_def)

lemma scoreboard_defaults:
  "map_of (getScoreboard_params opts) ''groups''
     = Some (if groups opts = Undefined then Num 80 else groups opts)"
  "map_of (getScoreboard_params opts) ''seasontype''
     = Some (if seasontype opts = Undefined then Num 2 else seasontype opts)"
  "map_of (getScoreboard_params opts) ''limit''
     = Some (if limit opts = Undefined then Num 300 else limit opts)"
  by (simp_all add: getScoreboard_params_def or_default_def)

section \<open>getPicks\<close>

lemma and_then_Inr:
  "and_then r f = Inr y \<longleftrightarrow> (\<exists>x. r = Inr x \<and> f x = Inr y)"
  by (cases r) (simp_all add: and_then_def)

lemma and_then_simps [simp]:
  "and_then (Inl e) f = Inl e"
  "and_then (Inr x) f = f x"
  by (simp_all add: and_then_def)

lemma picks_of_fields:
  assumes "picks_of data = Inr r"
  shows "\<exists>wp. get_prop data ''winprobability'' = Inr wp
           \<and> prop_of r ''winProbability'' = wp \<and> prop_of r ''pickcenter'' = wp"
proof -
  from assms obtain header header_id gameInfo leaders competitions competition competitors
      wp ats odds season week standings
    where wp: "get_prop data ''winprobability'' = Inr wp"
      and r: "r = Obj
       [(''id'', parseInt header_id),
        (''gameInfo'', gameInfo),
        (''leaders'', leaders),
        (''header'', header),
        (''teams'', competitors),
        (''competitions'', competitions),
        (''winProbability'', wp),
        (''pickcenter'', wp),
        (''againstTheSpread'', ats),
        (''odds'', odds),
        (''season'', season),
        (''week'', week),
        (''standings'', standings)]"
    unfolding picks_of_def and_then_Inr by (elim exE conjE) (simp, blast)
  from r have "prop_of r ''winProbability'' = wp" "prop_of r ''pickcenter'' = wp"
    by (simp_all add: prop_of_def)
  with wp show ?thesis by blast
qed

text \<open>
  Claim C9. Whenever \<open>getPicks\<close> returns a record, its \<open>pickcenter\<close> is its
  \<open>winProbability\<close>, and both are the \<open>winprobability\<close> entry of the response; the
  \<open>pickcenter\<close> entry of the response is not read.
\<close>

theorem getPicks_pickcenter_is_winprobability:
  assumes "axios_get w (fst (picks_target gameId)) (snd (picks_target gameId)) = Inr data"
    and "snd (getPicks w gameId) = Inr r"
  shows "prop_of r ''pickcenter'' = prop_of r ''winProbability''
       \<and> get_prop data ''winprobability'' = Inr (prop_of r ''pickcenter'')"
proof -
  from assms have "picks_of data = Inr r"
    by (simp add: getPicks_def split_beta)
  from picks_of_fields [OF this] show ?thesis by auto
qed

theorem getPicks_pickcenter_is_winprobability_witness:
  "get_prop summary_response ''winprobability'' = Inr (Arr [Num 1, Num 2])
   \<and> (\<exists>r. snd (getPicks (answering summary_response) (Num 401256194)) = Inr r
        \<and> prop_of r ''pickcenter'' = Arr [Num 1, Num 2]
        \<and> prop_of r ''winProbability'' = Arr [Num 1, Num 2]
        \<and> get_prop summary_response ''pickcenter'' = Inr (Arr [Str ''line'', Str ''spread'']))"
proof -
  let ?w = "answering summary_response"
  let ?g = "Num 401256194"
  have fetched: "axios_get ?w (fst (picks_target ?g)) (snd (picks_target ?g)) = Inr summary_response"
    by (simp add: answering_def)
  have "\<exists>r. picks_of summary_response = Inr r"
    by (simp add: picks_of_def summary_response_def)
  then obtain r where r: "snd (getPicks ?w ?g) = Inr r"
    by (auto simp: getPicks_def split_beta answering_def)
  from getPicks_pickcenter_is_winprobability [OF fetched r]
  have "prop_of r ''pickcenter'' = prop_of r ''winProbability''"
    and "get_prop summary_response ''winprobability'' = Inr (prop_of r ''pickcenter'')"
    by simp_all
  then have "prop_of r ''pickcenter'' = Arr [Num 1, Num 2]"
    and "prop_of r ''winProbability'' = Arr [Num 1, Num 2]"
    by (simp_all add: summary_response_def)
  moreover have "get_prop summary_response ''pickcenter'' = Inr (Arr [Str ''line'', Str ''spread''])"
    by (simp add: summary_response_def)
  moreover have "get_prop summary_response ''winprobability'' = Inr (Arr [Num 1, Num 2])"
    by (simp add: summary_response_def)
  ultimately show ?thesis using r by simp
qed

section \<open>The name and rating filter\<close>

lemma has_name_and_rating_commit_player:
  "has_name_and_rating (commit_player html) \<longleftrightarrow>
     trim (find_text html ''.ri-page__name-link'') \<noteq> ''''
     \<and> trim (find_own_text html ''span.score'') \<noteq> ''''"
  by (simp add: has_name_and_rating_def commit_player_def prop_of_def Let_def)

lemma filter_commit_players:
  "filter has_name_and_rating (map commit_player rows)
     = map commit_player
         (filter (\<lambda>html. trim (find_text html ''.ri-page__name-link'') \<noteq> ''''
                        \<and> trim (find_own_text html ''span.score'') \<noteq> '''') rows)"
  by (induction rows) (simp_all add: has_name_and_rating_commit_player)

text \<open>A text of white space only, the no-break space included, trims to nothing.\<close>

lemma trim_white_space: "trim [CHR 0xA0, CHR 0x20, CHR 0x0A] = ''''"
  by (simp add: trim_def is_ws_def)

text \<open>A response that is \<^verbatim>\<open>null\<close> makes the operation throw where it loads the
  document, after the request.\<close>

lemma getSchoolCommits_null_response:
  assumes "axios_get w (fst (commits_target school yr)) (snd (commits_target school yr)) = Inr Null"
  shows "snd (getSchoolCommits h w school yr) = Inl (Error ''cheerio.load() expects a string'')"
  using assms by (simp add: getSchoolCommits_def split_beta cheerio_load_def)

text \<open>
  Claim C5, as amended. When the request of \<open>getSchoolCommits\<close> is answered and the
  document loads, the operation returns one record for each matched row that yields a
  name and a rating which are both not empty after trimming, in the order of the page,
  and no record for any other row; so every record it returns has a name and a rating
  that are not empty.
\<close>

theorem getSchoolCommits_drops_blank_rows:
  assumes "axios_get w (fst (commits_target school yr)) (snd (commits_target school yr)) = Inr data"
    and "cheerio_load h data = Inr dollar"
  shows "\<exists>result.
           getSchoolCommits h w school yr
             = ([AxiosGet (fst (commits_target school yr)) (snd (commits_target school yr))],
                Inr result)
           \<and> result = map commit_player
               (filter (\<lambda>html. trim (find_text html ''.ri-page__name-link'') \<noteq> ''''
                              \<and> trim (find_own_text html ''span.score'') \<noteq> '''')
                  (dollar ''.ri-page__list-item''))
           \<and> (\<forall>player \<in> set result.
                 prop_of player ''name'' \<noteq> Str '''' \<and> prop_of player ''rating'' \<noteq> Str '''')"
proof -
  let ?rows = "dollar ''.ri-page__list-item''"
  let ?result = "filter has_name_and_rating (map commit_player ?rows)"
  have "getSchoolCommits h w school yr
      = ([AxiosGet (fst (commits_target school yr)) (snd (commits_target school yr))],
         Inr ?result)"
    using assms by (simp add: getSchoolCommits_def split_beta Let_def)
  moreover have "\<forall>player \<in> set ?result.
      prop_of player ''name'' \<noteq> Str '''' \<and> prop_of player ''rating'' \<noteq> Str ''''"
    by (auto simp: has_name_and_rating_def)
  ultimately show ?thesis
    by (simp add: filter_commit_players)
qed

lemma ten_rows_kept:
  "filter (\<lambda>html. trim (find_text html ''.ri-page__name-link'') \<noteq> ''''
                   \<and> trim (find_own_text html ''span.score'') \<noteq> '''') ten_rows
     = [text_row ''A'' ''99'', text_row ''B'' ''98'', text_row ''C'' ''97'', text_row ''D'' ''96'',
        text_row ''E'' ''95'', text_row ''F'' ''94'', text_row ''G'' ''93'', text_row ''H'' ''92'']"
  by (simp add: ten_rows_def text_row_def trim_def is_ws_def)

theorem getSchoolCommits_drops_blank_rows_witness:
  "length ten_rows = 10
   \<and> (\<exists>trace result.
         getSchoolCommits (node_host ten_rows) (answering (Str ''page''))
           (Str ''floridastate'') (Num 2021) = (trace, Inr result)
         \<and> length result = 8
         \<and> map (\<lambda>player. prop_of player ''name'') result
             = [Str ''A'', Str ''B'', Str ''C'', Str ''D'', Str ''E'', Str ''F'', Str ''G'', Str ''H''])"
proof -
  let ?w = "answering (Str ''page'')"
  let ?h = "node_host ten_rows"
  have fetched: "axios_get ?w (fst (commits_target (Str ''floridastate'') (Num 2021)))
      (snd (commits_target (Str ''floridastate'') (Num 2021))) = Inr (Str ''page'')"
    by (simp add: answering_def)
  have loaded: "cheerio_load ?h (Str ''page'') = Inr (\<lambda>sel. ten_rows)"
    by (simp add: cheerio_load_def node_host_def)
  from getSchoolCommits_drops_blank_rows [OF fetched loaded]
  obtain result where
    r: "getSchoolCommits ?h ?w (Str ''floridastate'') (Num 2021)
          = ([AxiosGet (fst (commits_target (Str ''floridastate'') (Num 2021)))
                (snd (commits_target (Str ''floridastate'') (Num 2021)))], Inr result)"
    and "result = map commit_player
               (filter (\<lambda>html. trim (find_text html ''.ri-page__name-link'') \<noteq> ''''
                              \<and> trim (find_own_text html ''span.score'') \<noteq> '''')
                  ten_rows)"
    by blast
  then have result: "result = map commit_player
      [text_row ''A'' ''99'', text_row ''B'' ''98'', text_row ''C'' ''97'', text_row ''D'' ''96'',
       text_row ''E'' ''95'', text_row ''F'' ''94'', text_row ''G'' ''93'', text_row ''H'' ''92'']"
    by (simp add: ten_rows_kept)
  then have l8: "length result = 8" by simp
  from result have names: "map (\<lambda>player. prop_of player ''name'') result
      = [Str ''A'', Str ''B'', Str ''C'', Str ''D'', Str ''E'', Str ''F'', Str ''G'', Str ''H'']"
    by (simp add: commit_player_def prop_of_def Let_def text_row_def trim_def is_ws_def)
  have l10: "length ten_rows = 10" by (simp add: ten_rows_def)
  show ?thesis
    by (intro conjI exI) (rule l10, rule r, rule l8, rule names)
qed

text \<open>
  Claim C5 as stated fails for the other extractions from HTML. On the page of ten rows,
  two of them without a name, \<open>getSchoolRankings\<close> returns ten records, the first with an
  empty school name and an empty rating; and \<open>getPlayerRankings\<close> for 247 returns no list
  of eight records but throws after the fetch.
\<close>

theorem html_rows_not_filtered_counterexample:
  "(\<exists>trace records.
      getSchoolRankings (node_host ten_rows) (answering (Str ''page'')) (Num 2021) Undefined
        = (trace, Inr records)
      \<and> length records = 10
      \<and> prop_of (hd records) ''school'' = Str ''''
      \<and> prop_of (hd records) ''averageRating'' = Str '''')
   \<and> (\<exists>trace. getPlayerRankings (node_host ten_rows) (answering (Str ''page''))
                  (rankings_for 1 ''247'') = Some (trace, Inl (ReferenceError ''$'')))"
proof
  have run: "getSchoolRankings (node_host ten_rows) (answering (Str ''page'')) (Num 2021) Undefined
      = ([AxiosGet (fst (school_rankings_target (Num 2021) Undefined))
            (snd (school_rankings_target (Num 2021) Undefined))],
         Inr (map school_of ten_rows))"
    by (simp add: getSchoolRankings_def split_beta answering_def cheerio_load_def node_host_def)
  have len: "length (map school_of ten_rows) = 10"
    by (simp add: ten_rows_def)
  have school: "prop_of (hd (map school_of ten_rows)) ''school'' = Str ''''"
    and rating: "prop_of (hd (map school_of ten_rows)) ''averageRating'' = Str ''''"
    by (simp_all add: ten_rows_def school_of_def prop_of_def text_row_def trim_def)
  show "\<exists>trace records.
      getSchoolRankings (node_host ten_rows) (answering (Str ''page'')) (Num 2021) Undefined
        = (trace, Inr records)
      \<and> length records = 10
      \<and> prop_of (hd records) ''school'' = Str ''''
      \<and> prop_of (hd records) ''averageRating'' = Str ''''"
    by (intro conjI exI) (rule run, rule len, rule school, rule rating)
next
  show "\<exists>trace. getPlayerRankings (node_host ten_rows) (answering (Str ''page''))
                  (rankings_for 1 ''247'') = Some (trace, Inl (ReferenceError ''$''))"
    by (simp add: getPlayerRankings_def rankings_target_def rankings_for_def service_of_def
        page_of_def fetchRankingsData_def answering_def extract_players_def load_and_drop_def
        cheerio_load_def resolve_dollar_def node_host_def toLowerCase_def lower_char_def Let_def)
qed

section \<open>getPlayerRankings\<close>

subsection \<open>The request\<close>

lemma rankings_target_unrecognized:
  "service_of opts \<notin> set recognized_services \<Longrightarrow>
   rankings_target opts = Inl (Error ''Invalid rankings type'')"
  by (simp add: rankings_target_def recognized_services_def Let_def)

text \<open>
  Claim C2. For a service name outside the six recognized ones \<open>getPlayerRankings\<close> ends
  with the error of line 263 and has done nothing to the outside: the trace of effects is
  empty, so there was no request and no browser session.
\<close>

theorem unrecognized_service_fails_before_fetch:
  assumes "svc \<notin> set recognized_services"
  shows "getPlayerRankings h w (opts\<lparr>service := Some svc\<rparr>)
           = Some ([], Inl (Error ''Invalid rankings type''))"
proof -
  have "service_of (opts\<lparr>service := Some svc\<rparr>) = svc"
    by (simp add: service_of_def)
  with assms have "rankings_target (opts\<lparr>service := Some svc\<rparr>)
      = Inl (Error ''Invalid rankings type'')"
    by (simp add: rankings_target_unrecognized)
  then show ?thesis by (simp add: getPlayerRankings_def)
qed

theorem unrecognized_service_fails_before_fetch_witness:
  "''Yahoo'' \<notin> set recognized_services
   \<and> getPlayerRankings (node_host ten_rows) (answering (Str ''page'')) (rankings_for 1 ''Yahoo'')
       = Some ([], Inl (Error ''Invalid rankings type''))"
proof -
  have a: "''Yahoo'' \<notin> set recognized_services"
    by (simp add: recognized_services_def)
  from unrecognized_service_fails_before_fetch
    [OF a, of "node_host ten_rows" "answering (Str ''page'')" "rankings_for 1 ''Yahoo''"]
  show ?thesis using a by (simp add: rankings_for_def)
qed

text \<open>
  Claim C6, as amended. Of the six recognized services, three carry no query parameters:
  Rivals, On3 and On3Composite, whose URLs hold the year in the path. 247Composite and 247
  pass \<open>InstitutionGroup\<close>, \<open>Page\<close>, \<open>Position\<close> and \<open>State\<close>, and ESPN passes \<open>lang\<close> and
  \<open>region\<close>.
\<close>

theorem rankings_query_parameters:
  "(\<exists>url config. rankings_target (opts\<lparr>service := Some ''Rivals''\<rparr>) = Inr (url, config)
        \<and> params config = None)
   \<and> (\<exists>url config. rankings_target (opts\<lparr>service := Some ''On3''\<rparr>) = Inr (url, config)
        \<and> params config = None)
   \<and> (\<exists>url config. rankings_target (opts\<lparr>service := Some ''On3Composite''\<rparr>) = Inr (url, config)
        \<and> params config = None)
   \<and> (\<exists>url config g p s t. rankings_target (opts\<lparr>service := Some ''247Composite''\<rparr>) = Inr (url, config)
        \<and> params config
            = Some [(''InstitutionGroup'', g), (''Page'', p), (''Position'', s), (''State'', t)])
   \<and> (\<exists>url config g p s t. rankings_target (opts\<lparr>service := Some ''247''\<rparr>) = Inr (url, config)
        \<and> params config
            = Some [(''InstitutionGroup'', g), (''Page'', p), (''Position'', s), (''State'', t)])
   \<and> (\<exists>url config. rankings_target (opts\<lparr>service := Some ''ESPN''\<rparr>) = Inr (url, config)
        \<and> params config = Some [(''lang'', Str ''en''), (''region'', Str ''us'')])"
  by (simp add: rankings_target_def service_of_def Let_def)

text \<open>Claim C6 as stated fails for On3: a recognized service other than Rivals whose
  request has no query parameters.\<close>

theorem on3_without_query_parameters_counterexample:
  "rankings_target (rankings_for 1 ''On3'')
     = Inr (''https://www.on3.com/db/rankings/player/football/2024/'',
            \<lparr>headers = [(''User-Agent'', user_agent)], params = None\<rparr>)"
  by (simp add: rankings_target_def rankings_for_def service_of_def Let_def show_int_def
      show_nat.simps digit_char_def)

text \<open>Every service but Rivals sends one request, whatever comes of the answer.\<close>

lemma getPlayerRankings_one_request:
  assumes "rankings_target opts = Inr (url, config)"
    and "toLowerCase (service_of opts) \<noteq> ''rivals''"
  shows "\<exists>res. getPlayerRankings h w opts = Some ([AxiosGet url config], res)"
  using assms
  by (cases "axios_get w url config") (simp_all add: getPlayerRankings_def fetchRankingsData_def)

lemma rankings_target_247:
  assumes "svc = None \<or> svc = Some ''247Composite'' \<or> svc = Some ''247''"
  shows "\<exists>url. rankings_target (opts\<lparr>service := svc\<rparr>)
      = Inr (url,
             \<lparr>headers = [(''User-Agent'', user_agent)],
              params = Some
                [(''InstitutionGroup'',
                    if group opts = Undefined then Str ''HighSchool'' else group opts),
                 (''Page'', Num (case page opts of None \<Rightarrow> 1 | Some p \<Rightarrow> p)),
                 (''Position'', if position opts = Undefined then Null else position opts),
                 (''State'', if state opts = Undefined then Null else state opts)]\<rparr>)
      \<and> toLowerCase (service_of (opts\<lparr>service := svc\<rparr>)) \<noteq> ''rivals''"
  using assms
  by (auto simp: rankings_target_def service_of_def page_of_def or_default_def Let_def
      toLowerCase_def lower_char_def)

lemma rankings_target_espn:
  "rankings_target (opts\<lparr>service := Some ''ESPN''\<rparr>)
      = Inr (''https://sports.core.api.espn.com/v2/sports/football/leagues/college-football/recruiting/''
               @ toString (year opts) @ ''/athletes?page=''
               @ show_int (case page opts of None \<Rightarrow> 1 | Some p \<Rightarrow> p),
             \<lparr>headers = [(''User-Agent'', user_agent)],
              params = Some [(''lang'', Str ''en''), (''region'', Str ''us'')]\<rparr>)
   \<and> toLowerCase (service_of (opts\<lparr>service := Some ''ESPN''\<rparr>)) \<noteq> ''rivals''"
  by (simp add: rankings_target_def service_of_def page_of_def Let_def toLowerCase_def
      lower_char_def)

text \<open>
  Claim C7. The one request that \<open>getSchedule\<close> sends carries \<open>groups\<close> 80 and
  \<open>seasontype\<close> 2, the one that \<open>getScoreboard\<close> sends carries these and \<open>limit\<close> 300, and
  the one that \<open>getPlayerRankings\<close> sends for 247Composite (also when no service is
  given) and for 247 carries \<open>InstitutionGroup\<close> \<open>HighSchool\<close> and \<open>Page\<close> 1; for ESPN the
  page 1 is written into the URL. Each default is replaced by the caller's value where
  the caller gives one.
\<close>

theorem defaults_and_overrides:
  fixes sched :: schedule_opts and board :: scoreboard_opts
  shows "(\<exists>ps. fst (getSchedule w sched)
                 = [AxiosGet ''http://cdn.espn.com/core/college-football/schedule''
                      \<lparr>headers = [], params = Some ps\<rparr>]
            \<and> map_of ps ''groups''
                 = Some (if groups sched = Undefined then Num 80 else groups sched)
            \<and> map_of ps ''seasontype''
                 = Some (if seasontype sched = Undefined then Num 2 else seasontype sched))
       \<and> (\<exists>ps. fst (getScoreboard w board)
                 = [AxiosGet ''http://site.api.espn.com/apis/site/v2/sports/football/college-football/scoreboard''
                      \<lparr>headers = [], params = Some ps\<rparr>]
            \<and> map_of ps ''groups''
                 = Some (if groups board = Undefined then Num 80 else groups board)
            \<and> map_of ps ''seasontype''
                 = Some (if seasontype board = Undefined then Num 2 else seasontype board)
            \<and> map_of ps ''limit''
                 = Some (if limit board = Undefined then Num 300 else limit board))
       \<and> (\<forall>svc \<in> {None, Some ''247Composite'', Some ''247''}.
            \<exists>url res. getPlayerRankings h w (opts\<lparr>service := svc\<rparr>)
              = Some ([AxiosGet url
                        \<lparr>headers = [(''User-Agent'', user_agent)],
                         params = Some
                           [(''InstitutionGroup'',
                               if group opts = Undefined then Str ''HighSchool'' else group opts),
                            (''Page'', Num (case page opts of None \<Rightarrow> 1 | Some p \<Rightarrow> p)),
                            (''Position'',
                               if position opts = Undefined then Null else position opts),
                            (''State'', if state opts = Undefined then Null else state opts)]\<rparr>],
                      res))
       \<and> (\<exists>config res. getPlayerRankings h w (opts\<lparr>service := Some ''ESPN''\<rparr>)
              = Some ([AxiosGet
                        (''https://sports.core.api.espn.com/v2/sports/football/leagues/college-football/recruiting/''
                           @ toString (year opts) @ ''/athletes?page=''
                           @ show_int (case page opts of None \<Rightarrow> 1 | Some p \<Rightarrow> p))
                        config],
                      res))"
proof (intro conjI ballI)
  show "\<exists>ps. fst (getSchedule w sched)
                 = [AxiosGet ''http://cdn.espn.com/core/college-football/schedule''
                      \<lparr>headers = [], params = Some ps\<rparr>]
            \<and> map_of ps ''groups''
                 = Some (if groups sched = Undefined then Num 80 else groups sched)
            \<and> map_of ps ''seasontype''
                 = Some (if seasontype sched = Undefined then Num 2 else seasontype sched)"
    by (simp add: getSchedule_request schedule_defaults)
  show "\<exists>ps. fst (getScoreboard w board)
                 = [AxiosGet ''http://site.api.espn.com/apis/site/v2/sports/football/college-football/scoreboard''
                      \<lparr>headers = [], params = Some ps\<rparr>]
            \<and> map_of ps ''groups''
                 = Some (if groups board = Undefined then Num 80 else groups board)
            \<and> map_of ps ''seasontype''
                 = Some (if seasontype board = Undefined then Num 2 else seasontype board)
            \<and> map_of ps ''limit''
                 = Some (if limit board = Undefined then Num 300 else limit board)"
    by (simp add: getScoreboard_request scoreboard_defaults)
next
  fix svc :: "string option"
  assume "svc \<in> {None, Some ''247Composite'', Some ''247''}"
  then have "svc = None \<or> svc = Some ''247Composite'' \<or> svc = Some ''247''" by simp
  from rankings_target_247 [OF this, of opts] obtain url where
    t: "rankings_target (opts\<lparr>service := svc\<rparr>)
      = Inr (url,
             \<lparr>headers = [(''User-Agent'', user_agent)],
              params = Some
                [(''InstitutionGroup'',
                    if group opts = Undefined then Str ''HighSchool'' else group opts),
                 (''Page'', Num (case page opts of None \<Rightarrow> 1 | Some p \<Rightarrow> p)),
                 (''Position'', if position opts = Undefined then Null else position opts),
                 (''State'', if state opts = Undefined then Null else state opts)]\<rparr>)"
    and r: "toLowerCase (service_of (opts\<lparr>service := svc\<rparr>)) \<noteq> ''rivals''"
    by blast
  from getPlayerRankings_one_request [OF t r, of h w]
  show "\<exists>url res. getPlayerRankings h w (opts\<lparr>service := svc\<rparr>)
              = Some ([AxiosGet url
                        \<lparr>headers = [(''User-Agent'', user_agent)],
                         params = Some
                           [(''InstitutionGroup'',
                               if group opts = Undefined then Str ''HighSchool'' else group opts),
                            (''Page'', Num (case page opts of None \<Rightarrow> 1 | Some p \<Rightarrow> p)),
                            (''Position'',
                               if position opts = Undefined then Null else position opts),
                            (''State'', if state opts = Undefined then Null else state opts)]\<rparr>],
                      res)"
    by blast
next
  from rankings_target_espn [of opts]
  have t: "rankings_target (opts\<lparr>service := Some ''ESPN''\<rparr>)
      = Inr (''https://sports.core.api.espn.com/v2/sports/football/leagues/college-football/recruiting/''
               @ toString (year opts) @ ''/athletes?page=''
               @ show_int (case page opts of None \<Rightarrow> 1 | Some p \<Rightarrow> p),
             \<lparr>headers = [(''User-Agent'', user_agent)],
              params = Some [(''lang'', Str ''en''), (''region'', Str ''us'')]\<rparr>)"
    and r: "toLowerCase (service_of (opts\<lparr>service := Some ''ESPN''\<rparr>)) \<noteq> ''rivals''"
    by simp_all
  from getPlayerRankings_one_request [OF t r, of h w]
  show "\<exists>config res. getPlayerRankings h w (opts\<lparr>service := Some ''ESPN''\<rparr>)
              = Some ([AxiosGet
                        (''https://sports.core.api.espn.com/v2/sports/football/leagues/college-football/recruiting/''
                           @ toString (year opts) @ ''/athletes?page=''
                           @ show_int (case page opts of None \<Rightarrow> 1 | Some p \<Rightarrow> p))
                        config],
                      res)"
    by blast
qed

theorem defaults_and_overrides_witness:
  "(\<exists>url res. getPlayerRankings (node_host ten_rows) (answering (Str ''page''))
       \<lparr>year = Num 2024, page = None, group = Undefined, position = Undefined,
        state = Undefined, service = None\<rparr>
     = Some ([AxiosGet url
               \<lparr>headers = [(''User-Agent'', user_agent)],
                params = Some [(''InstitutionGroup'', Str ''HighSchool''), (''Page'', Num 1),
                               (''Position'', Null), (''State'', Null)]\<rparr>], res))
   \<and> (\<exists>url res. getPlayerRankings (node_host ten_rows) (answering (Str ''page''))
       \<lparr>year = Num 2024, page = Some 3, group = Str ''JuniorCollege'', position = Undefined,
        state = Str ''FL'', service = Some ''247''\<rparr>
     = Some ([AxiosGet url
               \<lparr>headers = [(''User-Agent'', user_agent)],
                params = Some [(''InstitutionGroup'', Str ''JuniorCollege''), (''Page'', Num 3),
                               (''Position'', Null), (''State'', Str ''FL'')]\<rparr>], res))"
proof -
  let ?h = "node_host ten_rows" and ?w = "answering (Str ''page'')"
  let ?o1 = "\<lparr>year = Num 2024, page = None, group = Undefined, position = Undefined,
              state = Undefined, service = None\<rparr>"
  let ?o2 = "\<lparr>year = Num 2024, page = Some 3, group = Str ''JuniorCollege'',
              position = Undefined, state = Str ''FL'', service = Some ''247''\<rparr>"
  let ?s = "\<lparr>year = Undefined, month = Undefined, day = Undefined, groups = Undefined,
             seasontype = Undefined\<rparr>"
  let ?b = "\<lparr>year = Undefined, month = Undefined, day = Undefined, groups = Undefined,
             seasontype = Undefined, limit = Undefined\<rparr>"
  have m1: "None \<in> {None, Some ''247Composite'', Some ''247''}" by simp
  have m2: "Some ''247'' \<in> {None, Some ''247Composite'', Some ''247''}" by simp
  note t1 = defaults_and_overrides [where h = ?h and w = ?w and opts = ?o1 and sched = ?s
      and board = ?b]
  note t2 = defaults_and_overrides [where h = ?h and w = ?w and opts = ?o2 and sched = ?s
      and board = ?b]
  from t1 [THEN conjunct2, THEN conjunct2, THEN conjunct1, THEN bspec, OF m1]
  have 1: "\<exists>url res. getPlayerRankings ?h ?w ?o1
     = Some ([AxiosGet url
               \<lparr>headers = [(''User-Agent'', user_agent)],
                params = Some [(''InstitutionGroup'', Str ''HighSchool''), (''Page'', Num 1),
                               (''Position'', Null), (''State'', Null)]\<rparr>], res)"
    by simp
  from t2 [THEN conjunct2, THEN conjunct2, THEN conjunct1, THEN bspec, OF m2]
  have 2: "\<exists>url res. getPlayerRankings ?h ?w ?o2
     = Some ([AxiosGet url
               \<lparr>headers = [(''User-Agent'', user_agent)],
                params = Some [(''InstitutionGroup'', Str ''JuniorCollege''), (''Page'', Num 3),
                               (''Position'', Null), (''State'', Str ''FL'')]\<rparr>], res)"
    by simp
  from 1 2 show ?thesis by (rule conjI)
qed

subsection \<open>The rank written into the records\<close>

lemma each247_length: "length (each247 h rank rows) = length rows"
  by (induction rows arbitrary: rank) simp_all

lemma each247_ranking:
  "map (\<lambda>player. prop_of player ''ranking'') (each247 h rank rows)
     = map (\<lambda>i. Num (rank + int i)) [0 ..< length rows]"
proof (induction rows arbitrary: rank)
  case Nil
  then show ?case by simp
next
  case (Cons html rows)
  have "map (\<lambda>i. Num (rank + int i)) [0 ..< Suc (length rows)]
      = Num rank # map (\<lambda>i. Num (rank + 1 + int i)) [0 ..< length rows]"
    by (simp add: upt_conv_Cons map_Suc_upt [symmetric] del: upt_Suc)
  with Cons.IH [of "rank + 1"] show ?case
    by (simp add: player247_def prop_of_def Let_def)
qed

text \<open>
  What the loop of lines 282-304 would write, were it reached (in a host that defines a
  global \<^verbatim>\<open>$\<close>): on page \<open>pg\<close> the row with index \<open>i\<close> gets the rank
  \<open>1 + 50 * (pg - 1) + i\<close>.
\<close>

lemma extract_players_247_ranking:
  assumes "global_dollar h = Some dollar"
    and "cheerio_load h htmlResponse = Inr loaded"
    and "svc = ''247'' \<or> svc = ''247Composite''"
  shows "\<exists>players. extract_players h svc pg htmlResponse = Inr players
           \<and> map (\<lambda>player. prop_of player ''ranking'') players
               = map (\<lambda>i. Num (1 + 50 * (pg - 1) + int i)) [0 ..< length players]"
proof -
  let ?rows = "dollar ''ul.rankings-page__list > li.rankings-page__list-item:not(.rankings-page__list-item--header)''"
  have "extract_players h svc pg htmlResponse = Inr (each247 h (1 + 50 * (pg - 1)) ?rows)"
    using assms
    by (auto simp: extract_players_def load_and_drop_def resolve_dollar_def toLowerCase_def
        lower_char_def)
  then show ?thesis
    by (simp add: each247_ranking each247_length)
qed

text \<open>
  Claim C4 at page 2. In a host without a global \<^verbatim>\<open>$\<close> and \<^verbatim>\<open>attributes\<close> the operation
  fetches the page and then throws; no record and no rank comes back, neither for 247 nor
  for ESPN.
\<close>

theorem rank_backfill_not_reached:
  "getPlayerRankings (node_host ten_rows) (answering (Str ''page'')) (rankings_for 2 ''247'')
     = Some ([AxiosGet ''http://247sports.com/Season/2024-Football/recruitrankings''
                \<lparr>headers = [(''User-Agent'', user_agent)],
                 params = Some [(''InstitutionGroup'', Str ''HighSchool''), (''Page'', Num 2),
                                (''Position'', Null), (''State'', Null)]\<rparr>],
             Inl (ReferenceError ''$''))
   \<and> getPlayerRankings (node_host ten_rows) (answering espn_response) (rankings_for 2 ''ESPN'')
     = Some ([AxiosGet ''https://sports.core.api.espn.com/v2/sports/football/leagues/college-football/recruiting/2024/athletes?page=2''
                \<lparr>headers = [(''User-Agent'', user_agent)],
                 params = Some [(''lang'', Str ''en''), (''region'', Str ''us'')]\<rparr>],
             Inl (ReferenceError ''attributes''))"
  by (simp add: getPlayerRankings_def rankings_target_def rankings_for_def service_of_def
      page_of_def or_default_def fetchRankingsData_def answering_def extract_players_def
      load_and_drop_def cheerio_load_def resolve_dollar_def node_host_def toLowerCase_def
      lower_char_def Let_def show_int_def show_nat.simps digit_char_def espn_response_def
      iterate_def playerESPN_def resolve_attributes_def)

subsection \<open>The ESPN branch\<close>

lemma playerESPN_without_attributes:
  "global_attributes h = None \<Longrightarrow>
   \<exists>e. playerESPN h rank item = Inl e \<and> (e = ReferenceError ''attributes'' \<or> (\<exists>k. e = TypeError k))"
  by (cases item; simp add: playerESPN_def resolve_attributes_def and_then_def
      split: sum.splits option.splits)
     (auto elim!: get_prop.elims)

text \<open>
  Claim C8. In a host that defines no global \<^verbatim>\<open>attributes\<close>, every ESPN response whose
  \<open>items\<close> array is not empty makes the operation throw after the fetch: the
  ReferenceError of line 373, unless reading the position of the first item has thrown a
  TypeError in line 372 before.
\<close>

theorem espn_items_raise:
  assumes "global_attributes h = None"
    and "service opts = Some ''ESPN''"
    and "rankings_target opts = Inr (url, config)"
    and "axios_get w url config = Inr data"
    and "get_prop data ''items'' = Inr (Arr (item # items))"
  shows "\<exists>e. getPlayerRankings h w opts = Some ([AxiosGet url config], Inl e)
           \<and> (e = ReferenceError ''attributes'' \<or> (\<exists>k. e = TypeError k))"
proof -
  from assms(2) have svc: "service_of opts = ''ESPN''"
    by (simp add: service_of_def)
  have fetch: "fetchRankingsData w url config ''ESPN'' = Some ([AxiosGet url config], Inr data)"
    using assms(4) by (simp add: fetchRankingsData_def toLowerCase_def lower_char_def)
  obtain e where e: "playerESPN h (1 + 25 * (page_of opts - 1)) item = Inl e"
      "e = ReferenceError ''attributes'' \<or> (\<exists>k. e = TypeError k)"
    using playerESPN_without_attributes [OF assms(1)] by blast
  have "extract_players h ''ESPN'' (page_of opts) data = Inl e"
    using assms(5) e(1)
    by (simp add: extract_players_def load_and_drop_def toLowerCase_def lower_char_def
        iterate_def)
  with svc fetch assms(3) e(2) show ?thesis
    by (simp add: getPlayerRankings_def)
qed

theorem espn_items_raise_witness:
  "(\<exists>item. get_prop espn_response ''items'' = Inr (Arr [item]))
   \<and> (\<exists>trace. getPlayerRankings (node_host ten_rows) (answering espn_response)
                 (rankings_for 1 ''ESPN'') = Some (trace, Inl (ReferenceError ''attributes'')))"
proof -
  let ?opts = "rankings_for 1 ''ESPN''"
  let ?url = "''https://sports.core.api.espn.com/v2/sports/football/leagues/college-football/recruiting/2024/athletes?page=1''"
  let ?config = "\<lparr>headers = [(''User-Agent'', user_agent)],
                  params = Some [(''lang'', Str ''en''), (''region'', Str ''us'')]\<rparr>"
  have 1: "global_attributes (node_host ten_rows) = None" by (simp add: node_host_def)
  have 2: "service ?opts = Some ''ESPN''" by (simp add: rankings_for_def)
  have 3: "rankings_target ?opts = Inr (?url, ?config)"
    by (simp add: rankings_target_def rankings_for_def service_of_def page_of_def Let_def
        show_int_def show_nat.simps digit_char_def)
  have 4: "axios_get (answering espn_response) ?url ?config = Inr espn_response"
    by (simp add: answering_def)
  obtain item where 5: "get_prop espn_response ''items'' = Inr (Arr (item # []))"
    by (simp add: espn_response_def)
  from espn_items_raise [OF 1 2 3 4 5] obtain e where
    e: "getPlayerRankings (node_host ten_rows) (answering espn_response) ?opts
          = Some ([AxiosGet ?url ?config], Inl e)"
    by blast
  have "playerESPN (node_host ten_rows) 1 (Obj [(''athlete'',
                   Obj [(''id'', Str ''1''),
                        (''fullName'', Str ''A B''),
                        (''position'', Obj [(''abbreviation'', Str ''QB'')]),
                        (''hometown'', Obj [(''city'', Str ''Miami''),
                                            (''stateAbbreviation'', Str ''FL'')])]),
                 (''grade'', Num 90)]) = Inl (ReferenceError ''attributes'')"
    by (simp add: playerESPN_def resolve_attributes_def node_host_def)
  then have "extract_players (node_host ten_rows) ''ESPN'' 1 espn_response
      = Inl (ReferenceError ''attributes'')"
    by (simp add: extract_players_def load_and_drop_def toLowerCase_def lower_char_def
        iterate_def espn_response_def)
  with e 3 4 have "e = ReferenceError ''attributes''"
    by (simp add: getPlayerRankings_def fetchRankingsData_def toLowerCase_def lower_char_def
        service_of_def page_of_def rankings_for_def)
  with e 5 show ?thesis by auto
qed

subsection \<open>The On3 branch\<close>

text \<open>The record of lines 348-359 has the weight 0, whatever the row holds.\<close>

lemma playerOn3_weight: "prop_of (playerOn3 html) ''weight'' = Num 0"
  by (simp add: playerOn3_def prop_of_def Let_def)

text \<open>But in a host without a global \<^verbatim>\<open>$\<close> the branch builds no record: the operation
  never returns a list for On3 or On3Composite.\<close>

lemma extract_players_on3_raises:
  assumes "global_dollar h = None"
    and "svc = ''On3'' \<or> svc = ''On3Composite''"
  shows "\<exists>e. extract_players h svc pg htmlResponse = Inl e"
  using assms
  by (cases "cheerio_load h htmlResponse")
     (auto simp: extract_players_def load_and_drop_def resolve_dollar_def toLowerCase_def
        lower_char_def)

lemma on3_returns_no_records:
  assumes "global_dollar h = None"
    and "service opts = Some ''On3'' \<or> service opts = Some ''On3Composite''"
  shows "getPlayerRankings h w opts \<noteq> Some (trace, Inr players)"
proof
  assume ret: "getPlayerRankings h w opts = Some (trace, Inr players)"
  from assms(2) have svc: "service_of opts = ''On3'' \<or> service_of opts = ''On3Composite''"
    by (auto simp: service_of_def)
  from ret obtain htmlResponse where
    "extract_players h (service_of opts) (page_of opts) htmlResponse = Inr players"
    by (auto simp: getPlayerRankings_def split: sum.splits option.splits prod.splits)
  with extract_players_on3_raises [OF assms(1) svc, of "page_of opts" htmlResponse]
  show False by auto
qed


end
